theory Spec2Isabelle
  imports
    Main
    "HOL-Library.Word"
    "HOL-Library.Char_ord"
    "HOL-Library.List_Lexorder"
    "HOL-Library.Product_Lexorder"
    "HOL-Library.AList"
    "HOL-Library.Multiset"
begin

section \<open>Machine integers, errors and panics\<close>

text \<open>
  Go's \<open>uint\<close> on the 64-bit targets the service is built for is a 64-bit word:
  \<open>+\<close> and \<open>-\<close> wrap around, \<open><\<close> and \<open>\<le>\<close> compare unsigned, \<open>div\<close>
  is unsigned division. Go's \<open>int\<close> is modelled by HOL's \<open>int\<close>; the conversions
  \<open>uint(i)\<close> and \<open>int(u)\<close> reinterpret the 64 bits and are written \<open>word_of_int\<close>
  and \<open>sint\<close>. Where the code adds or multiplies \<open>int\<close>s that nothing bounds,
  \<open>wrapInt\<close> gives the value the 64-bit \<open>int\<close> holds afterwards.
\<close>

type_synonym uint = "64 word"

definition wrapInt :: "int \<Rightarrow> int" where
  "wrapInt x = sint (word_of_int x :: 64 word)"

definition HundredCore :: uint where
  "HundredCore = 100"

text \<open>Run-time panics of the Go code (they abort the request) and its \<open>error\<close> values.\<close>

datatype panic = DivideByZero | NilPointerDereference | NegativeLen

datatype error =
    UpdateUsedCoreFailed uint uint
  | UpdateUsedMemoryFailed uint uint
  | PredicateIndexNotFound int string
  | AtoiSyntax string
  | AtoiRange string
  | AllocateFailed string
  | PodPredicated string
  | ApiConflict string
  | ApiServerTimeout string
  | ApiOther string
  | ErrWaitTimeout
  | PatchFailed "(string \<times> string) list" string error
  | ListerFailed string
  | SelectorInvalid string
  | KeyNotFound string
  | UnmarshalFailed string

datatype 'a result = Panic panic | Err error | Ok 'a

section \<open>Device (pkg/device: DeviceInfo)\<close>

record DeviceInfo =
  dev_id :: int
  dev_totalMemory :: uint
  dev_usedMemory :: uint
  dev_usedCore :: uint

definition newDeviceInfo :: "int \<Rightarrow> uint \<Rightarrow> DeviceInfo" where
  "newDeviceInfo i totalMemory =
     \<lparr>dev_id = i, dev_totalMemory = totalMemory, dev_usedMemory = 0, dev_usedCore = 0\<rparr>"

text \<open>
  \<open>DeviceInfo.AddUsedResources\<close> mutates its receiver and returns an error: the model
  returns the device after the call together with the error (\<open>None\<close> is Go's \<open>nil\<close>).
\<close>

definition DeviceInfo_AddUsedResources ::
    "DeviceInfo \<Rightarrow> uint \<Rightarrow> uint \<Rightarrow> DeviceInfo \<times> error option" where
  "DeviceInfo_AddUsedResources dev usedCore usedMemory =
     (if usedCore + dev_usedCore dev > HundredCore
        then (dev, Some (UpdateUsedCoreFailed usedCore (dev_usedCore dev)))
      else if usedMemory + dev_usedMemory dev > dev_totalMemory dev
        then (dev, Some (UpdateUsedMemoryFailed usedMemory (dev_usedMemory dev)))
      else (dev\<lparr>dev_usedCore := dev_usedCore dev + usedCore,
                 dev_usedMemory := dev_usedMemory dev + usedMemory\<rparr>, None))"

definition AllocatableCores :: "DeviceInfo \<Rightarrow> uint" where
  "AllocatableCores d = HundredCore - dev_usedCore d"

definition AllocatableMemory :: "DeviceInfo \<Rightarrow> uint" where
  "AllocatableMemory d = dev_totalMemory d - dev_usedMemory d"

text \<open>A sequence of \<open>reserve\<close> calls on one device, each keeping the device it leaves.\<close>

fun reserveAll :: "DeviceInfo \<Rightarrow> (uint \<times> uint) list \<Rightarrow> DeviceInfo" where
  "reserveAll dev [] = dev"
| "reserveAll dev ((c, m) # ops) = reserveAll (fst (DeviceInfo_AddUsedResources dev c m)) ops"

definition dev_inv :: "DeviceInfo \<Rightarrow> bool" where
  "dev_inv d = (dev_usedCore d \<le> HundredCore \<and> dev_usedMemory d \<le> dev_totalMemory d)"

section \<open>Strings (the Go library functions the code calls)\<close>

fun HasPrefix :: "string \<Rightarrow> string \<Rightarrow> bool" where
  "HasPrefix s [] = True"
| "HasPrefix [] (p # ps) = False"
| "HasPrefix (c # s) (p # ps) = (c = p \<and> HasPrefix s ps)"

text \<open>\<open>strings.Contains(s, substr)\<close>.\<close>

fun Contains :: "string \<Rightarrow> string \<Rightarrow> bool" where
  "Contains [] substr = (substr = [])"
| "Contains (c # s) substr = (HasPrefix (c # s) substr \<or> Contains s substr)"

text \<open>\<open>strings.Split(s, ",")\<close>: the empty string splits into one empty field.\<close>

fun Split_comma :: "string \<Rightarrow> string list" where
  "Split_comma [] = [[]]"
| "Split_comma (c # s) =
     (if c = CHR '','' then [] # Split_comma s
      else (case Split_comma s of [] \<Rightarrow> [[c]] | f # fs \<Rightarrow> (c # f) # fs))"

text \<open>\<open>strings.Join(elems, sep)\<close>.\<close>

fun Join :: "string list \<Rightarrow> string \<Rightarrow> string" where
  "Join [] sep = []"
| "Join [x] sep = x"
| "Join (x # y # ys) sep = x @ sep @ Join (y # ys) sep"

definition digit_char :: "nat \<Rightarrow> char" where
  "digit_char n = ''0123456789'' ! n"

fun digits :: "nat \<Rightarrow> string" where
  "digits n = (if n < 10 then [digit_char n] else digits (n div 10) @ [digit_char (n mod 10)])"

text \<open>\<open>strconv.Itoa\<close>, and \<open>%d\<close> of a \<open>uint\<close>.\<close>

definition Itoa :: "int \<Rightarrow> string" where
  "Itoa i = (if i < 0 then CHR ''-'' # digits (nat (- i)) else digits (nat i))"

definition utoa :: "uint \<Rightarrow> string" where
  "utoa u = digits (unat u)"

definition is_digit :: "char \<Rightarrow> bool" where
  "is_digit c = (CHR ''0'' \<le> c \<and> c \<le> CHR ''9'')"

definition digit_val :: "char \<Rightarrow> int" where
  "digit_val c = int (of_char c) - 48"

text \<open>
  \<open>strconv.Atoi\<close>: an optional sign, then one or more decimal digits; a value outside
  the 64-bit \<open>int\<close> is a range error.
\<close>

definition Atoi :: "string \<Rightarrow> int result" where
  "Atoi s =
     (let neg = (s \<noteq> [] \<and> hd s = CHR ''-'');
          body = (if s \<noteq> [] \<and> (hd s = CHR ''-'' \<or> hd s = CHR ''+'') then tl s else s)
      in if body = [] \<or> \<not> list_all is_digit body then Err (AtoiSyntax s)
         else let v = fold (\<lambda>c a. a * 10 + digit_val c) body 0;
                  n = (if neg then - v else v)
              in if n < - (2 ^ 63) \<or> 2 ^ 63 \<le> n then Err (AtoiRange s) else Ok n)"

text \<open>Go's \<open>int\<close> division truncates towards zero.\<close>

definition int_quo :: "int \<Rightarrow> int \<Rightarrow> int" where
  "int_quo a b = sgn a * sgn b * (\<bar>a\<bar> div \<bar>b\<bar>)"

section \<open>Cluster objects (the fields of pods and nodes the code reads)\<close>

datatype PodPhase = PodPending | PodRunning | PodSucceeded | PodFailed | PodUnknown

text \<open>
  A resource list maps a resource name to the \<open>Value()\<close> of its quantity, a map of
  annotations or labels a key to a string. Both are association lists read with
  \<open>map_of\<close> and written with \<open>AList.update\<close>, so that ranging over the keys is
  executable.
\<close>

record Container =
  c_name :: string
  c_limits :: "(string \<times> int) list"

record Pod =
  pod_name :: string
  pod_namespace :: string
  pod_uid :: string
  pod_annotations :: "(string \<times> string) list"
  pod_containers :: "Container list"
  pod_nodeName :: string
  pod_phase :: PodPhase

record Node =
  node_name :: string
  node_labels :: "(string \<times> string) list"
  node_capacity :: "(string \<times> int) list"

section \<open>pkg/util\<close>

definition VCoreAnnotation :: string where
  "VCoreAnnotation = ''tencent.com/vcuda-core''"

definition VMemoryAnnotation :: string where
  "VMemoryAnnotation = ''tencent.com/vcuda-memory''"

definition PredicateTimeAnnotation :: string where
  "PredicateTimeAnnotation = ''tencent.com/predicate-time''"

definition PredicateGPUIndexPrefix :: string where
  "PredicateGPUIndexPrefix = ''tencent.com/predicate-gpu-idx-''"

definition PredicateNode :: string where
  "PredicateNode = ''tencent.com/predicate-node''"

definition GPUAssigned :: string where
  "GPUAssigned = ''tencent.com/gpu-assigned''"

definition GetGPUResourceOfContainer :: "Container \<Rightarrow> string \<Rightarrow> uint" where
  "GetGPUResourceOfContainer container resourceName =
     (case map_of (c_limits container) resourceName of
        Some val \<Rightarrow> word_of_int val
      | None \<Rightarrow> 0)"

definition GetGPUResourceOfPod :: "Pod \<Rightarrow> string \<Rightarrow> uint" where
  "GetGPUResourceOfPod pod resourceName =
     fold (\<lambda>container total.
             (case map_of (c_limits container) resourceName of
                Some val \<Rightarrow> total + word_of_int val
              | None \<Rightarrow> total))
          (pod_containers pod) 0"

definition IsGPURequiredPod :: "Pod \<Rightarrow> bool" where
  "IsGPURequiredPod pod =
     (let vcore = GetGPUResourceOfPod pod VCoreAnnotation;
          vmemory = GetGPUResourceOfPod pod VMemoryAnnotation
      in \<not> (vcore \<le> 0 \<or> (vcore < HundredCore \<and> vmemory \<le> 0)))"

definition IsGPURequiredContainer :: "Container \<Rightarrow> bool" where
  "IsGPURequiredContainer c =
     (let vcore = GetGPUResourceOfContainer c VCoreAnnotation;
          vmemory = GetGPUResourceOfContainer c VMemoryAnnotation
      in \<not> (vcore \<le> 0 \<or> (vcore < HundredCore \<and> vmemory \<le> 0)))"

definition GetCapacityOfNode :: "Node \<Rightarrow> string \<Rightarrow> int" where
  "GetCapacityOfNode node resourceName =
     (case map_of (node_capacity node) resourceName of None \<Rightarrow> 0 | Some val \<Rightarrow> val)"

definition IsGPUEnabledNode :: "Node \<Rightarrow> bool" where
  "IsGPUEnabledNode node = (GetCapacityOfNode node VCoreAnnotation > 0)"

definition GetGPUDeviceCountOfNode :: "Node \<Rightarrow> int" where
  "GetGPUDeviceCountOfNode node =
     (case map_of (node_capacity node) VCoreAnnotation of
        None \<Rightarrow> 0
      | Some val \<Rightarrow> int_quo val 100)"

fun atoiAll :: "string list \<Rightarrow> int list result" where
  "atoiAll [] = Ok []"
| "atoiAll (indexStr # rest) =
     (case Atoi indexStr of
        Ok index \<Rightarrow>
          (case atoiAll rest of Ok ret \<Rightarrow> Ok (index # ret) | Err e \<Rightarrow> Err e | Panic p \<Rightarrow> Panic p)
      | Err e \<Rightarrow> Err e
      | Panic p \<Rightarrow> Panic p)"

text \<open>
  \<open>GetPredicateIdxOfContainer\<close>: the indices of the annotation
  \<open>predicate-gpu-idx-<containerIndex>\<close>, or the first error (the caller drops the indices
  parsed before it).
\<close>

definition GetPredicateIdxOfContainer :: "Pod \<Rightarrow> int \<Rightarrow> int list result" where
  "GetPredicateIdxOfContainer pod containerIndex =
     (case map_of (pod_annotations pod) (PredicateGPUIndexPrefix @ Itoa containerIndex) of
        None \<Rightarrow> Err (PredicateIndexNotFound containerIndex (pod_uid pod))
      | Some predicateIndexes \<Rightarrow> atoiAll (Split_comma predicateIndexes))"

fun ShouldRetry :: "error \<Rightarrow> bool" where
  "ShouldRetry (ApiConflict msg) = True"
| "ShouldRetry (ApiServerTimeout msg) = True"
| "ShouldRetry e = False"

section \<open>NodeView (pkg/device: NodeInfo)\<close>

text \<open>
  \<open>devs\<close> is the Go map from a device index to the device; a read of a missing key
  yields the nil pointer, and a method call on it panics.
\<close>

record NodeInfo =
  ni_name :: string
  ni_node :: Node
  ni_devs :: "int \<rightharpoonup> DeviceInfo"
  ni_deviceCount :: int
  ni_totalMemory :: uint
  ni_usedCore :: uint
  ni_usedMemory :: uint

text \<open>
  \<open>NodeInfo.AddUsedResources\<close>: the node after the call and the error it returned; a
  panic when \<open>devID\<close> is not a key of \<open>devs\<close>.
\<close>

definition NodeInfo_AddUsedResources ::
    "NodeInfo \<Rightarrow> int \<Rightarrow> uint \<Rightarrow> uint \<Rightarrow> (NodeInfo \<times> error option) result" where
  "NodeInfo_AddUsedResources n devID vcore vmemory =
     (case ni_devs n devID of
        None \<Rightarrow> Panic NilPointerDereference
      | Some dev \<Rightarrow>
          (case DeviceInfo_AddUsedResources dev vcore vmemory of
             (dev', Some err) \<Rightarrow> Ok (n\<lparr>ni_devs := (ni_devs n)(devID \<mapsto> dev')\<rparr>, Some err)
           | (dev', None) \<Rightarrow>
               Ok (n\<lparr>ni_devs := (ni_devs n)(devID \<mapsto> dev'),
                      ni_usedCore := ni_usedCore n + vcore,
                      ni_usedMemory := ni_usedMemory n + vmemory\<rparr>, None)))"

definition GetAvailableCore :: "NodeInfo \<Rightarrow> int" where
  "GetAvailableCore n = ni_deviceCount n * 100 - sint (ni_usedCore n)"

definition GetAvailableMemory :: "NodeInfo \<Rightarrow> int" where
  "GetAvailableMemory n = sint (ni_totalMemory n - ni_usedMemory n)"

text \<open>The reservation one listed index of a container stands for.\<close>

definition replayRequest :: "Container \<Rightarrow> uint \<Rightarrow> uint \<times> uint" where
  "replayRequest c deviceTotalMemory =
     (let vcore = GetGPUResourceOfContainer c VCoreAnnotation
      in if vcore < HundredCore then (vcore, GetGPUResourceOfContainer c VMemoryAnnotation)
         else (HundredCore, deviceTotalMemory))"

text \<open>The three nested loops of \<open>NewNodeInfo\<close>, innermost first.\<close>

fun replayIndexes ::
    "Container \<Rightarrow> int \<Rightarrow> uint \<Rightarrow> int list \<Rightarrow> NodeInfo \<Rightarrow> NodeInfo result" where
  "replayIndexes c deviceCount deviceTotalMemory [] ret = Ok ret"
| "replayIndexes c deviceCount deviceTotalMemory (index # rest) ret =
     (if index \<ge> deviceCount then replayIndexes c deviceCount deviceTotalMemory rest ret
      else
        (case NodeInfo_AddUsedResources ret index
                (fst (replayRequest c deviceTotalMemory)) (snd (replayRequest c deviceTotalMemory)) of
           Panic p \<Rightarrow> Panic p
         | Err e \<Rightarrow> Err e
         | Ok (ret', err) \<Rightarrow> replayIndexes c deviceCount deviceTotalMemory rest ret'))"

fun replayContainers ::
    "Pod \<Rightarrow> int \<Rightarrow> uint \<Rightarrow> (nat \<times> Container) list \<Rightarrow> NodeInfo \<Rightarrow> NodeInfo result" where
  "replayContainers pod deviceCount deviceTotalMemory [] ret = Ok ret"
| "replayContainers pod deviceCount deviceTotalMemory ((i, c) # rest) ret =
     (case GetPredicateIdxOfContainer pod (int i) of
        Ok predicateIndexes \<Rightarrow>
          (case replayIndexes c deviceCount deviceTotalMemory predicateIndexes ret of
             Ok ret' \<Rightarrow> replayContainers pod deviceCount deviceTotalMemory rest ret'
           | Err e \<Rightarrow> Err e
           | Panic p \<Rightarrow> Panic p)
      | Err e \<Rightarrow> replayContainers pod deviceCount deviceTotalMemory rest ret
      | Panic p \<Rightarrow> Panic p)"

fun replayPods :: "int \<Rightarrow> uint \<Rightarrow> Pod list \<Rightarrow> NodeInfo \<Rightarrow> NodeInfo result" where
  "replayPods deviceCount deviceTotalMemory [] ret = Ok ret"
| "replayPods deviceCount deviceTotalMemory (pod # pods) ret =
     (case replayContainers pod deviceCount deviceTotalMemory
             (enumerate 0 (pod_containers pod)) ret of
        Ok ret' \<Rightarrow> replayPods deviceCount deviceTotalMemory pods ret'
      | Err e \<Rightarrow> Err e
      | Panic p \<Rightarrow> Panic p)"

text \<open>
  \<open>NewNodeInfo\<close>. The division \<open>nodeTotalMemory / uint(deviceCount)\<close> panics when the
  divisor is zero.
\<close>

definition NewNodeInfo :: "Node \<Rightarrow> Pod list \<Rightarrow> NodeInfo result" where
  "NewNodeInfo node pods =
     (let nodeTotalMemory = (word_of_int (GetCapacityOfNode node VMemoryAnnotation) :: uint);
          deviceCount = GetGPUDeviceCountOfNode node
      in if (word_of_int deviceCount :: uint) = 0 then Panic DivideByZero
         else
           let deviceTotalMemory = nodeTotalMemory div word_of_int deviceCount;
               devMap = fold (\<lambda>i m. m(i \<mapsto> newDeviceInfo i deviceTotalMemory))
                             [0..deviceCount - 1] Map.empty;
               ret = \<lparr>ni_name = node_name node, ni_node = node, ni_devs = devMap,
                      ni_deviceCount = deviceCount, ni_totalMemory = nodeTotalMemory,
                      ni_usedCore = 0, ni_usedMemory = 0\<rparr>
           in replayPods deviceCount deviceTotalMemory pods ret)"

text \<open>
  The shape \<open>NewNodeInfo\<close> gives a view and every reservation keeps: the keys of
  \<open>devs\<close> below the device count hold devices, each with its key as id and with its
  counters within their ceilings.
\<close>

definition wf_node :: "NodeInfo \<Rightarrow> bool" where
  "wf_node n =
     (0 \<le> ni_deviceCount n \<and>
      list_all (\<lambda>i. case ni_devs n i of
                       None \<Rightarrow> False
                     | Some d \<Rightarrow> dev_id d = i \<and> dev_inv d)
               [0..ni_deviceCount n - 1])"

section \<open>Comparators and sorting (pkg/device, pkg/algorithm)\<close>

text \<open>
  The source has one family of comparators for devices and nodes, dispatching on the
  dynamic type; the model has one definition for each of the two types.
\<close>

definition ByAllocatableCores :: "DeviceInfo \<Rightarrow> DeviceInfo \<Rightarrow> bool" where
  "ByAllocatableCores d1 d2 = (AllocatableCores d1 < AllocatableCores d2)"

definition ByAllocatableMemory :: "DeviceInfo \<Rightarrow> DeviceInfo \<Rightarrow> bool" where
  "ByAllocatableMemory d1 d2 = (AllocatableMemory d1 < AllocatableMemory d2)"

definition ByID :: "DeviceInfo \<Rightarrow> DeviceInfo \<Rightarrow> bool" where
  "ByID d1 d2 = (dev_id d1 < dev_id d2)"

definition ByAllocatableCores_node :: "NodeInfo \<Rightarrow> NodeInfo \<Rightarrow> bool" where
  "ByAllocatableCores_node n1 n2 = (GetAvailableCore n1 < GetAvailableCore n2)"

definition ByAllocatableMemory_node :: "NodeInfo \<Rightarrow> NodeInfo \<Rightarrow> bool" where
  "ByAllocatableMemory_node n1 n2 = (GetAvailableMemory n1 < GetAvailableMemory n2)"

definition ByID_node :: "NodeInfo \<Rightarrow> NodeInfo \<Rightarrow> bool" where
  "ByID_node n1 n2 = (ni_name n1 < ni_name n2)"

text \<open>
  \<open>Less\<close> of the three sorters (\<open>shareModePriority\<close>, \<open>exclusiveModePriority\<close>,
  \<open>nodeInfoPriority\<close>): all comparators but the last decide when they tell the two
  elements apart, the last decides otherwise. Every sorter is built with three.
\<close>

fun Less :: "('a \<Rightarrow> 'a \<Rightarrow> bool) list \<Rightarrow> 'a \<Rightarrow> 'a \<Rightarrow> bool" where
  "Less [] a b = False"
| "Less [lf] a b = lf a b"
| "Less (lf # lfs) a b = (if lf a b then True else if lf b a then False else Less lfs a b)"

text \<open>
  \<open>sort.Sort\<close> orders the slice ascending by \<open>Less\<close>. It is not stable; where no two
  elements tie under \<open>Less\<close> (device ids, and node names, are distinct) the result is the
  only ascending arrangement, which this insertion sort computes.
\<close>

fun insertBy :: "('a \<Rightarrow> 'a \<Rightarrow> bool) \<Rightarrow> 'a \<Rightarrow> 'a list \<Rightarrow> 'a list" where
  "insertBy lt x [] = [x]"
| "insertBy lt x (y # ys) = (if lt y x then y # insertBy lt x ys else x # y # ys)"

definition Sort :: "('a \<Rightarrow> 'a \<Rightarrow> bool) list \<Rightarrow> 'a list \<Rightarrow> 'a list" where
  "Sort lfs data = foldr (insertBy (Less lfs)) data []"

definition deviceSorter :: "(DeviceInfo \<Rightarrow> DeviceInfo \<Rightarrow> bool) list" where
  "deviceSorter = [ByAllocatableCores, ByAllocatableMemory, ByID]"

definition nodeSorter :: "(NodeInfo \<Rightarrow> NodeInfo \<Rightarrow> bool) list" where
  "nodeSorter = [ByAllocatableCores_node, ByAllocatableMemory_node, ByID_node]"

section \<open>Allocator (pkg/algorithm)\<close>

text \<open>
  \<open>tmpStore\<close>: the devices at the keys \<open>0 .. deviceCount - 1\<close>. \<open>make\<close> panics on a
  negative length, and sorting or scanning a slice that holds a nil pointer panics.
\<close>

fun those_devs :: "DeviceInfo option list \<Rightarrow> DeviceInfo list option" where
  "those_devs [] = Some []"
| "those_devs (None # ds) = None"
| "those_devs (Some d # ds) = (case those_devs ds of None \<Rightarrow> None | Some r \<Rightarrow> Some (d # r))"

definition nodeDevices :: "NodeInfo \<Rightarrow> DeviceInfo list option" where
  "nodeDevices n = those_devs (map (ni_devs n) [0..ni_deviceCount n - 1])"

definition tmpStore :: "NodeInfo \<Rightarrow> DeviceInfo list result" where
  "tmpStore n =
     (if ni_deviceCount n < 0 then Panic NegativeLen
      else (case nodeDevices n of
              None \<Rightarrow> Panic NilPointerDereference
            | Some ds \<Rightarrow> Ok (Sort deviceSorter ds)))"

text \<open>\<open>shareMode.Evaluate\<close>: the first device of the sorted slice that fits.\<close>

definition deviceFits :: "uint \<Rightarrow> uint \<Rightarrow> DeviceInfo \<Rightarrow> bool" where
  "deviceFits cores memory dev =
     (AllocatableCores dev \<ge> cores \<and> AllocatableMemory dev \<ge> memory)"

fun firstFit :: "uint \<Rightarrow> uint \<Rightarrow> DeviceInfo list \<Rightarrow> DeviceInfo list" where
  "firstFit cores memory [] = []"
| "firstFit cores memory (dev # rest) =
     (if deviceFits cores memory dev then [dev] else firstFit cores memory rest)"

definition shareMode_Evaluate :: "NodeInfo \<Rightarrow> uint \<Rightarrow> uint \<Rightarrow> DeviceInfo list result" where
  "shareMode_Evaluate n cores memory =
     (case tmpStore n of
        Ok store \<Rightarrow> Ok (firstFit cores memory store)
      | Err e \<Rightarrow> Err e
      | Panic p \<Rightarrow> Panic p)"

text \<open>
  \<open>exclusiveMode.Evaluate\<close>: the loop takes completely free devices until \<open>num\<close> is
  zero; the result is nil (the empty list) when \<open>num\<close> is still positive at the end.
\<close>

fun pickFree :: "int \<Rightarrow> DeviceInfo list \<Rightarrow> DeviceInfo list \<Rightarrow> int \<times> DeviceInfo list" where
  "pickFree num devs [] = (num, devs)"
| "pickFree num devs (dev # rest) =
     (if num = 0 then (num, devs)
      else if AllocatableCores dev = HundredCore then pickFree (num - 1) (devs @ [dev]) rest
      else pickFree num devs rest)"

definition exclusiveMode_Evaluate :: "NodeInfo \<Rightarrow> uint \<Rightarrow> uint \<Rightarrow> DeviceInfo list result" where
  "exclusiveMode_Evaluate n cores memory =
     (case tmpStore n of
        Ok store \<Rightarrow>
          (case pickFree (sint (cores div HundredCore)) [] store of
             (num, devs) \<Rightarrow> if num > 0 then Ok [] else Ok devs)
      | Err e \<Rightarrow> Err e
      | Panic p \<Rightarrow> Panic p)"

text \<open>The charging loop of \<open>AllocateOne\<close>: the first error ends the allocation.\<close>

fun chargeAll :: "NodeInfo \<Rightarrow> DeviceInfo list \<Rightarrow> uint \<Rightarrow> uint \<Rightarrow> NodeInfo result" where
  "chargeAll n [] vcore vmemory = Ok n"
| "chargeAll n (dev # devs) vcore vmemory =
     (case NodeInfo_AddUsedResources n (dev_id dev) vcore vmemory of
        Panic p \<Rightarrow> Panic p
      | Err e \<Rightarrow> Err e
      | Ok (n', Some err) \<Rightarrow> Err err
      | Ok (n', None) \<Rightarrow> chargeAll n' devs vcore vmemory)"

text \<open>
  \<open>AllocateOne\<close>: the node after the charges and the devices picked. Go returns the
  pointers \<open>Evaluate\<close> picked; they point into \<open>devs\<close> of the node, so that read
  after the call they show the devices as the charges left them. A pointer is the device
  at the key that is its id: \<open>NewNodeInfo\<close> stores the device of id \<open>i\<close> at the key
  \<open>i\<close>, and nothing changes an id or a key. \<open>readDevices\<close> reads the picked devices
  in the node after the charges (each key is there: the charge went through it). After an
  error the caller drops the node.
\<close>

definition readDevices :: "NodeInfo \<Rightarrow> DeviceInfo list \<Rightarrow> DeviceInfo list" where
  "readDevices n devs =
     map (\<lambda>dev. case ni_devs n (dev_id dev) of Some d \<Rightarrow> d | None \<Rightarrow> dev) devs"

definition AllocateOne :: "NodeInfo \<Rightarrow> Container \<Rightarrow> (NodeInfo \<times> DeviceInfo list) result" where
  "AllocateOne nodeInfo container =
     (let node = ni_node nodeInfo;
          nodeTotalMemory = GetCapacityOfNode node VMemoryAnnotation;
          deviceCount = GetGPUDeviceCountOfNode node
      in if deviceCount = 0 then Panic DivideByZero
         else
           let deviceTotalMemory = (word_of_int (int_quo nodeTotalMemory deviceCount) :: uint);
               needCores = GetGPUResourceOfContainer container VCoreAnnotation;
               needMemory = GetGPUResourceOfContainer container VMemoryAnnotation;
               sharedMode = (needCores < HundredCore)
           in (case (if sharedMode then shareMode_Evaluate nodeInfo needCores needMemory
                     else exclusiveMode_Evaluate nodeInfo needCores needMemory) of
                 Panic p \<Rightarrow> Panic p
               | Err e \<Rightarrow> Err e
               | Ok devs \<Rightarrow>
                   if length devs = 0 then Err (AllocateFailed (c_name container))
                   else
                     (case chargeAll nodeInfo devs
                             (if sharedMode then needCores else HundredCore)
                             (if sharedMode then needMemory else deviceTotalMemory) of
                        Panic p \<Rightarrow> Panic p
                      | Err e \<Rightarrow> Err e
                      | Ok n' \<Rightarrow> Ok (n', readDevices n' devs))))"

text \<open>The container loop of \<open>Allocate\<close>, threading the node and the annotations.\<close>

fun allocateContainers ::
    "NodeInfo \<Rightarrow> (nat \<times> Container) list \<Rightarrow> (string \<times> string) list \<Rightarrow>
       (NodeInfo \<times> (string \<times> string) list) result" where
  "allocateContainers n [] annotations = Ok (n, annotations)"
| "allocateContainers n ((i, c) # rest) annotations =
     (if \<not> IsGPURequiredContainer c then allocateContainers n rest annotations
      else
        (case AllocateOne n c of
           Panic p \<Rightarrow> Panic p
         | Err e \<Rightarrow> Err e
         | Ok (n', devs) \<Rightarrow>
             allocateContainers n' rest
               (AList.update (PredicateGPUIndexPrefix @ Itoa (int i))
                  (Join (map (\<lambda>dev. Itoa (dev_id dev)) devs) '','') annotations)))"

text \<open>\<open>Allocate\<close>; \<open>now\<close> is the reading of \<open>time.Now().UnixNano()\<close>.\<close>

definition Allocate :: "NodeInfo \<Rightarrow> int \<Rightarrow> Pod \<Rightarrow> (NodeInfo \<times> Pod) result" where
  "Allocate nodeInfo now pod =
     (case allocateContainers nodeInfo (enumerate 0 (pod_containers pod)) (pod_annotations pod) of
        Panic p \<Rightarrow> Panic p
      | Err e \<Rightarrow> Err e
      | Ok (n', annotations) \<Rightarrow>
          Ok (n', pod\<lparr>pod_annotations :=
                 AList.update PredicateTimeAnnotation (Itoa now)
                   (AList.update GPUAssigned ''false''
                      (AList.update PredicateNode (ni_name nodeInfo) annotations))\<rparr>))"

section \<open>The cluster as the filter sees it\<close>

text \<open>
  What one call of the filter observes of its collaborators: the pod lister's answer for a
  namespace (the empty name is \<open>NamespaceAll\<close>; \<open>Inl\<close> is an error), the node
  lister's answer, the verdict
  of the label-selector validation of the API machinery on a key and its values, the clock
  reading taken when allocating on a node, and the API server's answers to the successive
  \<open>Patch\<close> attempts that one write-back of the given annotations makes before the
  ten-second ceiling of \<open>wait.PollImmediate\<close> (\<open>None\<close> is a successful patch).
\<close>

record Cluster =
  cl_podLister :: "string \<Rightarrow> error + Pod list"
  cl_nodeLister :: "error + Node list"
  cl_selectorError :: "string \<Rightarrow> string list \<Rightarrow> error option"
  cl_now :: "string \<Rightarrow> int"
  cl_patch :: "Pod \<Rightarrow> (string \<times> string) list \<Rightarrow> error option list"

text \<open>
  \<open>err.Error()\<close>. The texts of \<open>strconv\<close>'s errors and of the patch failure (which
  prints the annotation map) are only logged by the code; they are abbreviated here.
\<close>

fun ErrorString :: "error \<Rightarrow> string" where
  "ErrorString (UpdateUsedCoreFailed req used) =
     ''update usedcore failed, request: '' @ utoa req @ '', already used: '' @ utoa used"
| "ErrorString (UpdateUsedMemoryFailed req used) =
     ''update usedmemory failed, request: '' @ utoa req @ '', already used: '' @ utoa used"
| "ErrorString (PredicateIndexNotFound i uid) =
     ''predicate index for container '' @ Itoa i @ '' of pod '' @ uid @ '' not found''"
| "ErrorString (AtoiSyntax s) = ''strconv.Atoi: parsing '' @ s @ '': invalid syntax''"
| "ErrorString (AtoiRange s) = ''strconv.Atoi: parsing '' @ s @ '': value out of range''"
| "ErrorString (AllocateFailed name) = ''failed to allocate for container '' @ name"
| "ErrorString (PodPredicated name) = ''pod '' @ name @ '' had been predicated!''"
| "ErrorString (ApiConflict msg) = msg"
| "ErrorString (ApiServerTimeout msg) = msg"
| "ErrorString (ApiOther msg) = msg"
| "ErrorString ErrWaitTimeout = ''timed out waiting for the condition''"
| "ErrorString (PatchFailed annotationMap uid e) =
     ''failed to add annotation to pod '' @ uid @ '' due to '' @ ErrorString e"
| "ErrorString (ListerFailed msg) = msg"
| "ErrorString (SelectorInvalid msg) = msg"
| "ErrorString (KeyNotFound k) = ''key '' @ k @ '' not found''"
| "ErrorString (UnmarshalFailed msg) = msg"

section \<open>The device filter (pkg/predicate)\<close>

definition ListPodsOnNode :: "Cluster \<Rightarrow> Node \<Rightarrow> error + Pod list" where
  "ListPodsOnNode env node =
     (case cl_podLister env [] of
        Inl err \<Rightarrow> Inl err
      | Inr pods \<Rightarrow>
          Inr (filter
                (\<lambda>pod.
                   let predicateNode =
                         (if pod_nodeName pod = [] then
                            (case map_of (pod_annotations pod) PredicateNode of
                               Some v \<Rightarrow> v
                             | None \<Rightarrow> [])
                          else [])
                   in (pod_nodeName pod = node_name node \<or> predicateNode = node_name node) \<and>
                      pod_phase pod \<noteq> PodSucceeded \<and> pod_phase pod \<noteq> PodFailed)
                pods))"

text \<open>
  \<open>wait.PollImmediate\<close> over the answers to the attempts: a nil error ends the poll with
  success, an error that \<open>ShouldRetry\<close> accepts leads to the next attempt, any other
  error ends the poll, and running out of attempts is the timeout.
\<close>

fun PollImmediate :: "error option list \<Rightarrow> error option" where
  "PollImmediate [] = Some ErrWaitTimeout"
| "PollImmediate (None # answers) = None"
| "PollImmediate (Some err # answers) =
     (if ShouldRetry err then PollImmediate answers else Some err)"

definition patchPodWithAnnotations ::
    "Cluster \<Rightarrow> Pod \<Rightarrow> (string \<times> string) list \<Rightarrow> error option" where
  "patchPodWithAnnotations env pod annotationMap =
     (case PollImmediate (cl_patch env pod annotationMap) of
        Some err \<Rightarrow> Some (PatchFailed annotationMap (pod_uid pod) err)
      | None \<Rightarrow> None)"

definition isPredicateKey :: "string \<Rightarrow> bool" where
  "isPredicateKey k =
     (Contains k GPUAssigned \<or> Contains k PredicateTimeAnnotation \<or>
      Contains k PredicateGPUIndexPrefix)"

text \<open>The guard at the head of \<open>deviceFilter\<close>: some annotation key is a predicate key.\<close>

definition alreadyPredicated :: "Pod \<Rightarrow> bool" where
  "alreadyPredicated pod = list_ex (\<lambda>(k, v). isPredicateKey k) (pod_annotations pod)"

text \<open>The first loop of \<open>deviceFilter\<close>: the views of the GPU nodes, in candidate order.\<close>

fun buildNodeInfoList ::
    "Cluster \<Rightarrow> Node list \<Rightarrow> (string \<rightharpoonup> string) \<Rightarrow> NodeInfo list \<Rightarrow>
       ((string \<rightharpoonup> string) \<times> NodeInfo list) result" where
  "buildNodeInfoList env [] failedNodesMap nodeInfoList = Ok (failedNodesMap, nodeInfoList)"
| "buildNodeInfoList env (node # nodes) failedNodesMap nodeInfoList =
     (if \<not> IsGPUEnabledNode node
        then buildNodeInfoList env nodes
               (failedNodesMap(node_name node \<mapsto> ''no GPU device'')) nodeInfoList
      else
        (case ListPodsOnNode env node of
           Inl err \<Rightarrow>
             buildNodeInfoList env nodes
               (failedNodesMap(node_name node \<mapsto> ''failed to get pods on node'')) nodeInfoList
         | Inr pods \<Rightarrow>
             (case NewNodeInfo node pods of
                Panic p \<Rightarrow> Panic p
              | Err e \<Rightarrow> Err e
              | Ok nodeInfo \<Rightarrow>
                  buildNodeInfoList env nodes failedNodesMap (nodeInfoList @ [nodeInfo]))))"

definition patchAnnotations :: "Pod \<Rightarrow> (string \<times> string) list" where
  "patchAnnotations newPod =
     filter (\<lambda>(k, v). isPredicateKey k \<or> Contains k PredicateNode) (pod_annotations newPod)"

text \<open>The reasons the second loop gives, built with \<open>fmt.Sprintf\<close> from the pod's UID.\<close>

definition alreadyMatchedReason :: "Pod \<Rightarrow> string" where
  "alreadyMatchedReason pod =
     ''pod '' @ pod_uid pod @ '' has already been matched to another node''"

definition doesNotMatchReason :: "Pod \<Rightarrow> string" where
  "doesNotMatchReason pod = ''pod '' @ pod_uid pod @ '' does not match with this node''"

text \<open>The second loop of \<open>deviceFilter\<close>, over the sorted views.\<close>

fun walkNodeInfoList ::
    "Cluster \<Rightarrow> Pod \<Rightarrow> NodeInfo list \<Rightarrow> bool \<Rightarrow> Node list \<Rightarrow> (string \<rightharpoonup> string) \<Rightarrow>
       (Node list \<times> (string \<rightharpoonup> string)) result" where
  "walkNodeInfoList env pod [] success filteredNodes failedNodesMap =
     Ok (filteredNodes, failedNodesMap)"
| "walkNodeInfoList env pod (nodeInfo # rest) success filteredNodes failedNodesMap =
     (let node = ni_node nodeInfo
      in if success
           then walkNodeInfoList env pod rest success filteredNodes
                  (failedNodesMap(node_name node \<mapsto> alreadyMatchedReason pod))
         else
           (case Allocate nodeInfo (cl_now env (node_name node)) pod of
              Panic p \<Rightarrow> Panic p
            | Err e \<Rightarrow>
                walkNodeInfoList env pod rest success filteredNodes
                  (failedNodesMap(node_name node \<mapsto> doesNotMatchReason pod))
            | Ok (n', newPod) \<Rightarrow>
                (case patchPodWithAnnotations env newPod (patchAnnotations newPod) of
                   Some err \<Rightarrow>
                     walkNodeInfoList env pod rest success filteredNodes
                       (failedNodesMap(node_name node \<mapsto> ''update pod annotation failed''))
                 | None \<Rightarrow>
                     walkNodeInfoList env pod rest True (filteredNodes @ [node])
                       failedNodesMap)))"

text \<open>\<open>deviceFilter\<close> after its guard: both versions of the file share it.\<close>

definition deviceFilterNodes ::
    "Cluster \<Rightarrow> Pod \<Rightarrow> Node list \<Rightarrow> (Node list \<times> (string \<rightharpoonup> string) \<times> error option) result" where
  "deviceFilterNodes env pod nodes =
     (case buildNodeInfoList env nodes Map.empty [] of
        Panic p \<Rightarrow> Panic p
      | Err e \<Rightarrow> Err e
      | Ok (failedNodesMap, nodeInfoList) \<Rightarrow>
          (case walkNodeInfoList env pod (Sort nodeSorter nodeInfoList) False [] failedNodesMap of
             Panic p \<Rightarrow> Panic p
           | Err e \<Rightarrow> Err e
           | Ok (filteredNodes, failedNodesMap') \<Rightarrow> Ok (filteredNodes, failedNodesMap', None)))"

text \<open>
  \<open>deviceFilter\<close> of the version without quota: a predicated pod is an error of the
  filter.
\<close>

definition deviceFilter ::
    "Cluster \<Rightarrow> Pod \<Rightarrow> Node list \<Rightarrow> (Node list \<times> (string \<rightharpoonup> string) \<times> error option) result" where
  "deviceFilter env pod nodes =
     (if alreadyPredicated pod then Ok ([], Map.empty, Some (PodPredicated (pod_name pod)))
      else deviceFilterNodes env pod nodes)"

text \<open>
  \<open>deviceFilter\<close> of the version with quota: a predicated pod gets no node and no
  error.
\<close>

definition deviceFilter_quota ::
    "Cluster \<Rightarrow> Pod \<Rightarrow> Node list \<Rightarrow> (Node list \<times> (string \<rightharpoonup> string) \<times> error option) result" where
  "deviceFilter_quota env pod nodes =
     (if alreadyPredicated pod then Ok ([], Map.empty, None)
      else deviceFilterNodes env pod nodes)"

section \<open>The filter pipeline (pkg/predicate: Filter)\<close>

record ExtenderFilterResult =
  Nodes :: "Node list option"
  FailedNodes :: "(string \<rightharpoonup> string) option"
  Error :: string

text \<open>The loop of \<open>Filter\<close> over its filters.\<close>

fun runFilters ::
    "(Pod \<Rightarrow> Node list \<Rightarrow> (Node list \<times> (string \<rightharpoonup> string) \<times> error option) result) list \<Rightarrow>
       Pod \<Rightarrow> Node list \<Rightarrow> (string \<rightharpoonup> string) \<Rightarrow> ExtenderFilterResult result" where
  "runFilters [] pod filteredNodes failedNodesMap =
     Ok \<lparr>Nodes = Some filteredNodes, FailedNodes = Some failedNodesMap, Error = []\<rparr>"
| "runFilters (f # fs) pod filteredNodes failedNodesMap =
     (case f pod filteredNodes of
        Panic p \<Rightarrow> Panic p
      | Err e \<Rightarrow> Err e
      | Ok (passedNodes, failedNodes, Some err) \<Rightarrow>
          Ok \<lparr>Nodes = None, FailedNodes = None, Error = ErrorString err\<rparr>
      | Ok (passedNodes, failedNodes, None) \<Rightarrow>
          runFilters fs pod passedNodes (failedNodesMap ++ failedNodes))"

text \<open>\<open>Filter\<close> of the version without quota.\<close>

definition Filter :: "Cluster \<Rightarrow> Pod \<Rightarrow> Node list \<Rightarrow> ExtenderFilterResult result" where
  "Filter env pod nodes =
     (if \<not> IsGPURequiredPod pod then Ok \<lparr>Nodes = Some nodes, FailedNodes = None, Error = []\<rparr>
      else runFilters [deviceFilter env] pod nodes Map.empty)"

section \<open>The quota filter (pkg/predicate, the version with quota)\<close>

record NamespaceQuota =
  Quota :: "(string \<times> int) list"
  Pool :: "string list"

record GPUFilterConfig =
  QuotaConfigMapName :: string
  QuotaConfigMapNamespace :: string
  GPUModelLabel :: string
  GPUPoolLabel :: string

record GPUFilter =
  conf :: GPUFilterConfig
  quota :: "(string \<times> NamespaceQuota) list"
  quotaLastSyncedRevision :: string

record ConfigMap =
  cm_resourceVersion :: string
  cm_data :: "(string \<times> string) list"

definition QuotaConfigKey :: string where
  "QuotaConfigKey = ''gpu_quota''"

text \<open>The filter as \<open>newGPUFilter\<close> leaves it: no quota, no synced revision.\<close>

definition newGPUFilter :: "GPUFilterConfig \<Rightarrow> GPUFilter" where
  "newGPUFilter gpuFilterConfig =
     \<lparr>conf = gpuFilterConfig, quota = [], quotaLastSyncedRevision = []\<rparr>"

definition setQuota :: "GPUFilter \<Rightarrow> (string \<times> NamespaceQuota) list \<Rightarrow> string \<Rightarrow> GPUFilter" where
  "setQuota gpuFilter q resourceVersion =
     gpuFilter\<lparr>quota := q, quotaLastSyncedRevision := resourceVersion\<rparr>"

definition getQuotaForNamespace :: "GPUFilter \<Rightarrow> string \<Rightarrow> NamespaceQuota option" where
  "getQuotaForNamespace gpuFilter namespace = map_of (quota gpuFilter) namespace"

text \<open>\<open>parseQuota\<close>; \<open>unmarshal\<close> stands for \<open>json.Unmarshal\<close> into the quota map.\<close>

definition parseQuota ::
    "(string \<Rightarrow> error + (string \<times> NamespaceQuota) list) \<Rightarrow> (string \<times> string) list \<Rightarrow>
       error + (string \<times> NamespaceQuota) list" where
  "parseQuota unmarshal configData =
     (case map_of configData QuotaConfigKey of
        None \<Rightarrow> Inl (KeyNotFound QuotaConfigKey)
      | Some quotaData \<Rightarrow> unmarshal quotaData)"

text \<open>
  \<open>syncQuota\<close>, given what \<open>getConfigData\<close> returned (\<open>Inl\<close> its error): the nil
  quota map of the not-found branch reads as the empty one.
\<close>

definition syncQuota ::
    "(string \<Rightarrow> error + (string \<times> NamespaceQuota) list) \<Rightarrow> GPUFilter \<Rightarrow>
       error + ConfigMap \<Rightarrow> GPUFilter" where
  "syncQuota unmarshal gpuFilter got =
     (case got of
        Inl err \<Rightarrow>
          if Contains (ErrorString err) ''not found'' then setQuota gpuFilter [] ''none''
          else gpuFilter
      | Inr configData \<Rightarrow>
          if cm_resourceVersion configData = quotaLastSyncedRevision gpuFilter then gpuFilter
          else
            (case parseQuota unmarshal (cm_data configData) of
               Inl err \<Rightarrow> gpuFilter
             | Inr q \<Rightarrow> setQuota gpuFilter q (cm_resourceVersion configData)))"

text \<open>
  Label selectors: \<open>labels.Everything()\<close>, \<open>labels.Nothing()\<close>, and the one
  requirement the code builds (the label is present and its value is one of the values;
  \<open>MatchLabels\<close> with one pair is the requirement with one value).
\<close>

datatype Selector = Everything | Nothing | LabelIn string "string list"

fun Matches :: "Selector \<Rightarrow> (string \<times> string) list \<Rightarrow> bool" where
  "Matches Everything ls = True"
| "Matches Nothing ls = False"
| "Matches (LabelIn key vals) ls =
     (case map_of ls key of None \<Rightarrow> False | Some v \<Rightarrow> v \<in> set vals)"

definition LabelSelectorAsSelector :: "Cluster \<Rightarrow> string \<Rightarrow> string list \<Rightarrow> error + Selector" where
  "LabelSelectorAsSelector env key vals =
     (case cl_selectorError env key vals of
        Some err \<Rightarrow> Inl err
      | None \<Rightarrow> Inr (LabelIn key vals))"

definition listPodsOnNodes :: "Cluster \<Rightarrow> Selector \<Rightarrow> string \<Rightarrow> error + Pod list" where
  "listPodsOnNodes env nodeSelector podNameSpace =
     (case cl_nodeLister env of
        Inl err \<Rightarrow> Inl err
      | Inr allNodes \<Rightarrow>
          (let records = map node_name (filter (\<lambda>node. Matches nodeSelector (node_labels node)) allNodes)
           in (case cl_podLister env podNameSpace of
                 Inl err \<Rightarrow> Inl err
               | Inr pods \<Rightarrow> Inr (filter (\<lambda>pod. pod_nodeName pod \<in> set records) pods))))"

definition quotaPod :: "Pod \<Rightarrow> bool" where
  "quotaPod pod = (\<not> (PodFailed = pod_phase pod \<or> PodSucceeded = pod_phase pod))"

definition calculateGPUUsage :: "Pod list \<Rightarrow> int" where
  "calculateGPUUsage pods =
     fold (\<lambda>pod totalGPURequests.
             if quotaPod pod
               then wrapInt (totalGPURequests + sint (GetGPUResourceOfPod pod VCoreAnnotation))
             else totalGPURequests)
          pods 0"

text \<open>The loop of \<open>filterGPUModel\<close> over the models of the namespace's quota.\<close>

fun filterGPUModelLoop ::
    "GPUFilter \<Rightarrow> Cluster \<Rightarrow> Pod \<Rightarrow> (string \<times> int) list \<Rightarrow> string list \<Rightarrow> error + string list" where
  "filterGPUModelLoop gpuFilter env pod [] filteredGPUModels = Inr filteredGPUModels"
| "filterGPUModelLoop gpuFilter env pod ((gpuModel, limit) # rest) filteredGPUModels =
     (case LabelSelectorAsSelector env (GPUModelLabel (conf gpuFilter)) [gpuModel] of
        Inl err \<Rightarrow> Inl err
      | Inr nodeSelector \<Rightarrow>
          (case listPodsOnNodes env nodeSelector (pod_namespace pod) of
             Inl err \<Rightarrow> Inl err
           | Inr pods \<Rightarrow>
               filterGPUModelLoop gpuFilter env pod rest
                 (if calculateGPUUsage (pods @ [pod]) \<le> wrapInt (limit * 100)
                    then filteredGPUModels @ [gpuModel]
                  else filteredGPUModels)))"

definition filterGPUModel :: "GPUFilter \<Rightarrow> Cluster \<Rightarrow> Pod \<Rightarrow> NamespaceQuota \<Rightarrow> error + string list" where
  "filterGPUModel gpuFilter env pod namespaceQuota =
     filterGPUModelLoop gpuFilter env pod (Quota namespaceQuota) []"

text \<open>The loop of \<open>filterNodes\<close> over the candidates.\<close>

fun filterNodesLoop ::
    "Selector \<Rightarrow> Selector \<Rightarrow> Node list \<Rightarrow> Node list \<Rightarrow> (string \<rightharpoonup> string) \<Rightarrow>
       Node list \<times> (string \<rightharpoonup> string)" where
  "filterNodesLoop gpuModelSelector poolSelector [] filteredNodes failedNodesMap =
     (filteredNodes, failedNodesMap)"
| "filterNodesLoop gpuModelSelector poolSelector (node # nodes) filteredNodes failedNodesMap =
     (if Matches gpuModelSelector (node_labels node) \<and> Matches poolSelector (node_labels node)
        then filterNodesLoop gpuModelSelector poolSelector nodes (filteredNodes @ [node])
               failedNodesMap
      else filterNodesLoop gpuModelSelector poolSelector nodes filteredNodes
             (failedNodesMap(node_name node \<mapsto> ''ExceedsGPUQuota'')))"

text \<open>\<open>filterNodes\<close>: the nodes kept, the failed nodes and the error, as Go returns them.\<close>

definition filterNodes ::
    "GPUFilter \<Rightarrow> Cluster \<Rightarrow> Node list \<Rightarrow> string list \<Rightarrow> string list \<Rightarrow>
       Node list \<times> (string \<rightharpoonup> string) \<times> error option" where
  "filterNodes gpuFilter env nodes gpuModels pools =
     (case (if length gpuModels \<noteq> 0
              then LabelSelectorAsSelector env (GPUModelLabel (conf gpuFilter)) gpuModels
            else Inr Nothing) of
        Inl err \<Rightarrow> ([], Map.empty, Some err)
      | Inr gpuModelSelector \<Rightarrow>
          (case (if length pools \<noteq> 0
                   then LabelSelectorAsSelector env (GPUPoolLabel (conf gpuFilter)) pools
                 else Inr Everything) of
             Inl err \<Rightarrow> ([], Map.empty, Some err)
           | Inr poolSelector \<Rightarrow>
               (case filterNodesLoop gpuModelSelector poolSelector nodes [] Map.empty of
                  (filteredNodes, failedNodesMap) \<Rightarrow> (filteredNodes, failedNodesMap, None))))"

text \<open>
  \<open>quotaFilter\<close>: a nil slice of nodes and a nil map of failed nodes read as the empty
  ones.
\<close>

definition quotaFilter ::
    "GPUFilter \<Rightarrow> Cluster \<Rightarrow> Pod \<Rightarrow> Node list \<Rightarrow>
       Node list \<times> (string \<rightharpoonup> string) \<times> error option" where
  "quotaFilter gpuFilter env pod nodes =
     (case getQuotaForNamespace gpuFilter (pod_namespace pod) of
        None \<Rightarrow> (nodes, Map.empty, None)
      | Some q \<Rightarrow>
          (case filterGPUModel gpuFilter env pod q of
             Inl err \<Rightarrow> ([], Map.empty, Some err)
           | Inr gpuModels \<Rightarrow> filterNodes gpuFilter env nodes gpuModels (Pool q)))"

text \<open>
  \<open>Filter\<close> of the version with quota; the sleep of \<open>SkipBindTime\<close> between the gate
  and the filters changes no value.
\<close>

definition Filter_quota ::
    "GPUFilter \<Rightarrow> Cluster \<Rightarrow> Pod \<Rightarrow> Node list \<Rightarrow> ExtenderFilterResult result" where
  "Filter_quota gpuFilter env pod nodes =
     (if \<not> IsGPURequiredPod pod then Ok \<lparr>Nodes = Some nodes, FailedNodes = None, Error = []\<rparr>
      else if length (quotaLastSyncedRevision gpuFilter) = 0
        then Ok \<lparr>Nodes = None, FailedNodes = None,
                 Error = ''GPU quota has not been synced, please retry later''\<rparr>
      else runFilters [\<lambda>p ns. Ok (quotaFilter gpuFilter env p ns), deviceFilter_quota env]
             pod nodes Map.empty)"

section \<open>Notions used to state the properties\<close>




text \<open>The memory of one device of a node, as \<open>NewNodeInfo\<close> computes it.\<close>

definition deviceTotalMemoryOf :: "Node \<Rightarrow> uint" where
  "deviceTotalMemoryOf node =
     word_of_int (GetCapacityOfNode node VMemoryAnnotation) div
     word_of_int (GetGPUDeviceCountOfNode node)"

text \<open>
  The replay in the words of the specification: for each pod, for each container \<open>i\<close>
  whose annotation \<open>predicate-gpu-idx-i\<close> is present and parses, for each listed index
  below the device count \<open>D\<close>, one reservation on the device of that index, of
  \<open>(cores, memory)\<close> when the container asks for fewer than 100 cores and of
  \<open>(100, deviceTotalMemory)\<close> otherwise (\<open>replayRequest\<close>).
\<close>

definition containerRequests :: "int \<Rightarrow> uint \<Rightarrow> Pod \<Rightarrow> nat \<times> Container \<Rightarrow> (int \<times> uint \<times> uint) list" where
  "containerRequests D dtm pod ic =
     (case GetPredicateIdxOfContainer pod (int (fst ic)) of
        Ok idxs \<Rightarrow> map (\<lambda>idx. (idx, replayRequest (snd ic) dtm)) (filter (\<lambda>idx. idx < D) idxs)
      | Err e \<Rightarrow> []
      | Panic p \<Rightarrow> [])"

definition replayRequests :: "int \<Rightarrow> uint \<Rightarrow> Pod list \<Rightarrow> (int \<times> uint \<times> uint) list" where
  "replayRequests D dtm pods =
     concat (map (\<lambda>pod. concat (map (containerRequests D dtm pod) (enumerate 0 (pod_containers pod)))) pods)"

text \<open>One reservation on the device map: a refused reservation leaves the device as it was.\<close>

definition applyReq :: "int \<times> uint \<times> uint \<Rightarrow> (int \<rightharpoonup> DeviceInfo) \<Rightarrow> (int \<rightharpoonup> DeviceInfo)" where
  "applyReq r devs =
     (case devs (fst r) of
        None \<Rightarrow> devs
      | Some d \<Rightarrow> devs(fst r \<mapsto> fst (DeviceInfo_AddUsedResources d (fst (snd r)) (snd (snd r)))))"

text \<open>The map holds a device at exactly the keys \<open>0 .. D - 1\<close>.\<close>

definition holds_devices :: "int \<Rightarrow> (int \<rightharpoonup> DeviceInfo) \<Rightarrow> bool" where
  "holds_devices D devs = (\<forall>i. (devs i \<noteq> None) = (0 \<le> i \<and> i < D))"

text \<open>The sort key the node comparators \<open>(availableCores, availableMemory, name)\<close> amount to.\<close>

definition nodeKey :: "NodeInfo \<Rightarrow> int \<times> int \<times> string" where
  "nodeKey n = (GetAvailableCore n, GetAvailableMemory n, ni_name n)"

text \<open>
  What the walk of \<open>deviceFilter\<close> finds on a view: the allocation and the patch both
  succeed, or the allocation succeeds and the patch fails.
\<close>

definition succeedsOn :: "Cluster \<Rightarrow> Pod \<Rightarrow> NodeInfo \<Rightarrow> bool" where
  "succeedsOn env pod nodeInfo =
     (case Allocate nodeInfo (cl_now env (node_name (ni_node nodeInfo))) pod of
        Ok (n', newPod) \<Rightarrow> patchPodWithAnnotations env newPod (patchAnnotations newPod) = None
      | Err e \<Rightarrow> False
      | Panic p \<Rightarrow> False)"

definition patchFailsOn :: "Cluster \<Rightarrow> Pod \<Rightarrow> NodeInfo \<Rightarrow> bool" where
  "patchFailsOn env pod nodeInfo =
     (case Allocate nodeInfo (cl_now env (node_name (ni_node nodeInfo))) pod of
        Ok (n', newPod) \<Rightarrow> patchPodWithAnnotations env newPod (patchAnnotations newPod) \<noteq> None
      | Err e \<Rightarrow> False
      | Panic p \<Rightarrow> False)"

text \<open>
  A candidate has a view when it passes the guard and its pods are listed; the view of a
  candidate is what \<open>NewNodeInfo\<close> makes of it and of those pods.
\<close>

definition hasView :: "Cluster \<Rightarrow> Node \<Rightarrow> bool" where
  "hasView env node = (IsGPUEnabledNode node \<and> \<not> isl (ListPodsOnNode env node))"

definition viewOf :: "Cluster \<Rightarrow> NodeInfo \<Rightarrow> Node \<Rightarrow> bool" where
  "viewOf env nodeInfo node =
     (case ListPodsOnNode env node of
        Inl err \<Rightarrow> False
      | Inr pods \<Rightarrow> NewNodeInfo node pods = Ok nodeInfo)"

text \<open>The nodes a filter result accepts: none when \<open>Nodes\<close> is nil.\<close>

definition acceptedNodes :: "ExtenderFilterResult \<Rightarrow> Node list" where
  "acceptedNodes r = (case Nodes r of None \<Rightarrow> [] | Some ns \<Rightarrow> ns)"

text \<open>The names a filter accepts and the reason it gives for a node, when it returns.\<close>

definition acceptedNames ::
    "(Node list \<times> (string \<rightharpoonup> string) \<times> error option) result \<Rightarrow> string list option" where
  "acceptedNames r = (case r of Ok (ns, fm, e) \<Rightarrow> Some (map node_name ns) | Err e \<Rightarrow> None | Panic p \<Rightarrow> None)"

definition failedReason ::
    "(Node list \<times> (string \<rightharpoonup> string) \<times> error option) result \<Rightarrow> string \<Rightarrow> string option" where
  "failedReason r name = (case r of Ok (ns, fm, e) \<Rightarrow> fm name | Err e \<Rightarrow> None | Panic p \<Rightarrow> None)"

text \<open>
  The write-back fails terminally: after the answers that are retried, the attempts have
  run out or the next answer is an error that is not retried.
\<close>

definition retryable :: "error option \<Rightarrow> bool" where
  "retryable answer = (case answer of None \<Rightarrow> False | Some err \<Rightarrow> ShouldRetry err)"

definition terminalFailure :: "error option list \<Rightarrow> bool" where
  "terminalFailure answers =
     (case dropWhile retryable answers of
        [] \<Rightarrow> True
      | None # rest \<Rightarrow> False
      | Some err # rest \<Rightarrow> True)"












text \<open>
  The periodic sync. A run of \<open>syncQuota\<close> on a filter that has loaded nothing yet loads
  when the config map is reported not found, or when it is read with a resource version
  (the empty one equals the revision of a filter that has loaded nothing, and the run
  stops there) and its quota parses. \<open>syncAll\<close> is a sequence of runs, one for each
  answer of \<open>getConfigData\<close>; an answer is versioned when the config map it brings has
  a resource version, as every object the API server stores has.
\<close>

definition syncLoads ::
    "(string \<Rightarrow> error + (string \<times> NamespaceQuota) list) \<Rightarrow> error + ConfigMap \<Rightarrow> bool" where
  "syncLoads unmarshal got =
     (case got of
        Inl err \<Rightarrow> Contains (ErrorString err) ''not found''
      | Inr configData \<Rightarrow>
          cm_resourceVersion configData \<noteq> [] \<and>
          \<not> isl (parseQuota unmarshal (cm_data configData)))"

definition syncAll ::
    "(string \<Rightarrow> error + (string \<times> NamespaceQuota) list) \<Rightarrow> GPUFilter \<Rightarrow>
       (error + ConfigMap) list \<Rightarrow> GPUFilter" where
  "syncAll unmarshal gpuFilter gots = fold (\<lambda>got g. syncQuota unmarshal g got) gots gpuFilter"

definition versioned :: "error + ConfigMap \<Rightarrow> bool" where
  "versioned got = (case got of Inl err \<Rightarrow> True | Inr configData \<Rightarrow> cm_resourceVersion configData \<noteq> [])"

text \<open>The answer of the gate, and the state in which \<open>Filter\<close> goes past the gate.\<close>

definition notSyncedResult :: ExtenderFilterResult where
  "notSyncedResult =
     \<lparr>Nodes = None, FailedNodes = None,
      Error = ''GPU quota has not been synced, please retry later''\<rparr>"

definition passesGate :: "GPUFilter \<Rightarrow> bool" where
  "passesGate gpuFilter = (quotaLastSyncedRevision gpuFilter \<noteq> [])"

section \<open>Concrete inputs\<close>

definition dev_example :: DeviceInfo where
  "dev_example = \<lparr>dev_id = 0, dev_totalMemory = 4, dev_usedMemory = 1, dev_usedCore = 20\<rparr>"


text \<open>A node of two devices (200 vcores, 8 units of memory) and views of it.\<close>

definition node_ex :: Node where
  "node_ex = \<lparr>node_name = ''node0'', node_labels = [],
               node_capacity = [(VCoreAnnotation, 200), (VMemoryAnnotation, 8)]\<rparr>"

definition dev_half :: "int \<Rightarrow> DeviceInfo" where
  "dev_half i = \<lparr>dev_id = i, dev_totalMemory = 4, dev_usedMemory = 1, dev_usedCore = 50\<rparr>"

definition view_of :: "DeviceInfo \<Rightarrow> DeviceInfo \<Rightarrow> NodeInfo" where
  "view_of d0 d1 =
     \<lparr>ni_name = ''node0'', ni_node = node_ex, ni_devs = [0 \<mapsto> d0, 1 \<mapsto> d1],
      ni_deviceCount = 2, ni_totalMemory = 8,
      ni_usedCore = dev_usedCore d0 + dev_usedCore d1,
      ni_usedMemory = dev_usedMemory d0 + dev_usedMemory d1\<rparr>"

definition container_ex :: "int \<Rightarrow> int \<Rightarrow> Container" where
  "container_ex cores memory =
     \<lparr>c_name = ''main'', c_limits = [(VCoreAnnotation, cores), (VMemoryAnnotation, memory)]\<rparr>"

definition pod_ex :: "string \<Rightarrow> (string \<times> string) list \<Rightarrow> Container list \<Rightarrow> Pod" where
  "pod_ex name annotations containers =
     \<lparr>pod_name = name, pod_namespace = ''test-ns'', pod_uid = ''uid-'' @ name,
      pod_annotations = annotations, pod_containers = containers,
      pod_nodeName = [], pod_phase = PodPending\<rparr>"

text \<open>
  Two pods placed on \<open>node_ex\<close>: the first lists the devices 0 and 5 for a container
  of 10 cores and the device 1 for a container of 100 cores, the second the device 0 for a
  container of 95 cores.
\<close>

definition placed_pods :: "Pod list" where
  "placed_pods =
     [pod_ex ''a'' [(''tencent.com/predicate-gpu-idx-0'', ''0,5''),
                    (''tencent.com/predicate-gpu-idx-1'', ''1'')]
                   [container_ex 10 1, container_ex 100 3],
      pod_ex ''b'' [(''tencent.com/predicate-gpu-idx-0'', ''0'')] [container_ex 95 1]]"


definition negative_pod :: Pod where
  "negative_pod =
     (pod_ex ''n'' [(''tencent.com/predicate-gpu-idx-0'', ''-1'')] [container_ex 10 1])
       \<lparr>pod_nodeName := ''node0'', pod_phase := PodRunning\<rparr>"

text \<open>A node that reports 50 vcores.\<close>

definition node_small :: Node where
  "node_small = \<lparr>node_name = ''node-small'', node_labels = [],
                  node_capacity = [(VCoreAnnotation, 50), (VMemoryAnnotation, 8)]\<rparr>"

text \<open>
  Nodes of one device each, a pod that asks for 10 vcores, the same pod already predicated,
  and a cluster in which the write-back of a placement on \<open>node0\<close> meets an error that
  is not retried while every other patch succeeds.
\<close>

definition gpu_node :: "string \<Rightarrow> Node" where
  "gpu_node name = \<lparr>node_name = name, node_labels = [],
                     node_capacity = [(VCoreAnnotation, 100), (VMemoryAnnotation, 4)]\<rparr>"

definition gpu_pod :: Pod where
  "gpu_pod = pod_ex ''p'' [] [container_ex 10 1]"

definition predicated_pod :: Pod where
  "predicated_pod = pod_ex ''q'' [(''tencent.com/gpu-assigned'', ''false'')] [container_ex 10 1]"

definition two_nodes :: "Node list" where
  "two_nodes = [gpu_node ''node0'', gpu_node ''node1'']"

definition view_ex :: "string \<Rightarrow> NodeInfo" where
 "view_ex name = \<lparr>ni_name = name, ni_node = gpu_node name, ni_devs = [0 \<mapsto> newDeviceInfo 0 4],
       ni_deviceCount = 1, ni_totalMemory = 4, ni_usedCore = 0, ni_usedMemory = 0\<rparr>"

definition cluster_ex :: Cluster where
  "cluster_ex =
     \<lparr>cl_podLister = (\<lambda>ns. Inr []),
      cl_nodeLister = Inr [],
      cl_selectorError = (\<lambda>key vals. None),
      cl_now = (\<lambda>name. 1),
      cl_patch = (\<lambda>pod annotations.
         if map_of annotations PredicateNode = Some ''node0'' then [Some (ApiOther ''forbidden'')]
         else [None])\<rparr>"

definition cluster_negative :: Cluster where
  "cluster_negative = cluster_ex\<lparr>cl_podLister := (\<lambda>ns. Inr [negative_pod])\<rparr>"

text \<open>A predicated pod whose container has no limits.\<close>

definition plain_predicated_pod :: Pod where
  "plain_predicated_pod =
     pod_ex ''r'' [(''tencent.com/gpu-assigned'', ''false'')] [\<lparr>c_name = ''main'', c_limits = []\<rparr>]"

definition conf_ex :: GPUFilterConfig where
  "conf_ex = \<lparr>QuotaConfigMapName = ''gpuquota'', QuotaConfigMapNamespace = ''kube-system'',
               GPUModelLabel = ''gpu-model'', GPUPoolLabel = ''gpu-pool''\<rparr>"







definition quota_ex :: NamespaceQuota where
  "quota_ex = \<lparr>Quota = [(''M40'', 1), (''P100'', 2)], Pool = [''public'']\<rparr>"

definition gpuFilter_ex :: GPUFilter where
  "gpuFilter_ex = \<lparr>conf = conf_ex, quota = [(''test-ns'', quota_ex)], quotaLastSyncedRevision = ''7''\<rparr>"

text \<open>
  Three runs of the sync that load nothing: the read fails, the config map has no key
  \<open>gpu_quota\<close>, the value of the key does not parse.
\<close>

definition unmarshal_ex :: "string \<Rightarrow> error + (string \<times> NamespaceQuota) list" where
  "unmarshal_ex quotaData =
     (if quotaData = ''{}'' then Inr [] else Inl (UnmarshalFailed ''invalid character''))"

definition failed_syncs :: "(error + ConfigMap) list" where
  "failed_syncs =
     [Inl (ApiOther ''connection refused''),
      Inr \<lparr>cm_resourceVersion = ''5'', cm_data = []\<rparr>,
      Inr \<lparr>cm_resourceVersion = ''6'', cm_data = [(''gpu_quota'', ''{'')]\<rparr>]"

section \<open>Device: the reservation counters\<close>

lemma AddUsedResources_keeps_inv:
  "dev_inv d \<Longrightarrow> dev_inv (fst (DeviceInfo_AddUsedResources d c m))"
  by (simp add: dev_inv_def DeviceInfo_AddUsedResources_def add.commute not_less)

lemma reserveAll_keeps_inv: "dev_inv d \<Longrightarrow> dev_inv (reserveAll d ops)"
proof (induction ops arbitrary: d)
  case Nil
  then show ?case by simp
next
  case (Cons op ops)
  obtain c m where op: "op = (c, m)" by (cases op)
  from Cons.prems have "dev_inv (fst (DeviceInfo_AddUsedResources d c m))"
    by (rule AddUsedResources_keeps_inv)
  then show ?case using Cons.IH op by simp
qed

lemma newDeviceInfo_inv: "dev_inv (newDeviceInfo i t)"
  by (simp add: dev_inv_def newDeviceInfo_def)

lemma uint_add_no_wrap:
  fixes a b :: uint
  assumes "unat a + unat b < 2 ^ 64"
  shows "unat (a + b) = unat a + unat b"
  using assms by (simp add: unat_word_ariths)

lemma AddUsedResources_fails_iff:
  "(snd (DeviceInfo_AddUsedResources d c m) \<noteq> None) =
     (dev_usedCore d + c > 100 \<or> dev_usedMemory d + m > dev_totalMemory d)"
  by (simp add: DeviceInfo_AddUsedResources_def HundredCore_def add.commute)

lemma AddUsedResources_failure_unchanged:
  "snd (DeviceInfo_AddUsedResources d c m) \<noteq> None \<Longrightarrow> fst (DeviceInfo_AddUsedResources d c m) = d"
  by (simp add: DeviceInfo_AddUsedResources_def split: if_splits)

lemma AddUsedResources_success:
  "snd (DeviceInfo_AddUsedResources d c m) = None \<Longrightarrow>
     fst (DeviceInfo_AddUsedResources d c m) =
       d\<lparr>dev_usedCore := dev_usedCore d + c, dev_usedMemory := dev_usedMemory d + m\<rparr>"
  by (simp add: DeviceInfo_AddUsedResources_def split: if_splits)

lemma reserveAll_totalMemory: "dev_totalMemory (reserveAll d ops) = dev_totalMemory d"
  by (induction d ops rule: reserveAll.induct)
     (simp_all add: DeviceInfo_AddUsedResources_def)

lemma AddUsedResources_fails_iff_nat:
  assumes "unat (dev_usedCore d) + unat c < 2 ^ 64"
    and "unat (dev_usedMemory d) + unat m < 2 ^ 64"
  shows "(snd (DeviceInfo_AddUsedResources d c m) \<noteq> None) =
           (unat (dev_usedCore d) + unat c > 100 \<or>
            unat (dev_usedMemory d) + unat m > unat (dev_totalMemory d))"
proof -
  have 1: "unat (dev_usedCore d + c) = unat (dev_usedCore d) + unat c"
    using assms by (simp add: uint_add_no_wrap)
  have 2: "unat (dev_usedMemory d + m) = unat (dev_usedMemory d) + unat m"
    using assms by (simp add: uint_add_no_wrap)
  show ?thesis
    unfolding AddUsedResources_fails_iff using 1 2 by (simp add: word_less_nat_alt)
qed

text \<open>
  \<open>reserve(c, m)\<close> (\<open>DeviceInfo.AddUsedResources\<close>) fails exactly when
  \<open>usedCore + c > 100\<close> or \<open>usedMemory + m > totalMemory\<close>, the sums being Go's
  \<open>uint\<close> sums; a failed call leaves both counters as they were; a successful call adds
  \<open>c\<close> and \<open>m\<close> to them, again as \<open>uint\<close> sums; so after any sequence of calls on a
  freshly constructed device \<open>usedCore \<le> 100\<close> and \<open>usedMemory \<le> totalMemory\<close>. Where
  the two sums do not exceed the 64-bit range they are the sums of the natural numbers, and
  the failure condition is the one read over the naturals.
\<close>

lemma reserve_exact_and_bounded:
  "((snd (DeviceInfo_AddUsedResources d c m) \<noteq> None) =
       (dev_usedCore d + c > 100 \<or> dev_usedMemory d + m > dev_totalMemory d)) \<and>
   (snd (DeviceInfo_AddUsedResources d c m) \<noteq> None \<longrightarrow>
       fst (DeviceInfo_AddUsedResources d c m) = d) \<and>
   (snd (DeviceInfo_AddUsedResources d c m) = None \<longrightarrow>
       fst (DeviceInfo_AddUsedResources d c m) =
         d\<lparr>dev_usedCore := dev_usedCore d + c, dev_usedMemory := dev_usedMemory d + m\<rparr>) \<and>
   (dev_usedCore (reserveAll (newDeviceInfo i t) ops) \<le> 100 \<and>
    dev_usedMemory (reserveAll (newDeviceInfo i t) ops) \<le> t) \<and>
   (unat (dev_usedCore d) + unat c < 2 ^ 64 \<and> unat (dev_usedMemory d) + unat m < 2 ^ 64 \<longrightarrow>
       (snd (DeviceInfo_AddUsedResources d c m) \<noteq> None) =
         (unat (dev_usedCore d) + unat c > 100 \<or>
          unat (dev_usedMemory d) + unat m > unat (dev_totalMemory d)))"
proof -
  have inv: "dev_inv (reserveAll (newDeviceInfo i t) ops)"
    by (rule reserveAll_keeps_inv [OF newDeviceInfo_inv])
  have bounded: "dev_usedCore (reserveAll (newDeviceInfo i t) ops) \<le> 100 \<and>
      dev_usedMemory (reserveAll (newDeviceInfo i t) ops) \<le> t"
    using inv reserveAll_totalMemory [of "newDeviceInfo i t" ops]
    by (simp add: dev_inv_def HundredCore_def newDeviceInfo_def)
  show ?thesis
    using AddUsedResources_fails_iff [of d c m] AddUsedResources_failure_unchanged [of d c m]
      AddUsedResources_success [of d c m] bounded AddUsedResources_fails_iff_nat [of d c m]
    by blast
qed

lemma reserve_example:
  "snd (DeviceInfo_AddUsedResources dev_example 90 1) \<noteq> None \<and>
   fst (DeviceInfo_AddUsedResources dev_example 90 1) = dev_example \<and>
   snd (DeviceInfo_AddUsedResources dev_example 80 3) = None \<and>
   fst (DeviceInfo_AddUsedResources dev_example 80 3) =
     dev_example\<lparr>dev_usedCore := 100, dev_usedMemory := 4\<rparr> \<and>
   dev_usedCore (reserveAll (newDeviceInfo 0 4) [(60, 2), (60, 1), (40, 3), (40, 2)]) \<le> 100 \<and>
   dev_usedMemory (reserveAll (newDeviceInfo 0 4) [(60, 2), (60, 1), (40, 3), (40, 2)]) \<le> 4"
  using reserve_exact_and_bounded [of dev_example 90 1 0 4 "[(60, 2), (60, 1), (40, 3), (40, 2)]"]
    reserve_exact_and_bounded [of dev_example 80 3 0 4 "[]"]
  by (simp add: dev_example_def)

text \<open>
  C7. Where a sum exceeds the 64-bit range the call does not fail as the sum over the
  naturals asks. On a device with 20 cores and 1 unit of memory in use, of 4: a call for
  \<open>2 ^ 64 - 10\<close> cores succeeds, although \<open>20 + c\<close> exceeds 100, and leaves 10 cores
  in use; a call for \<open>2 ^ 64 - 1\<close> units of memory succeeds, although \<open>1 + m\<close> exceeds
  the total, and leaves no memory in use.
\<close>

theorem C7_reserve_wraps_around:
  "DeviceInfo_AddUsedResources dev_example 18446744073709551606 0 =
     (dev_example\<lparr>dev_usedCore := 10\<rparr>, None) \<and>
   100 < unat (dev_usedCore dev_example) + unat (18446744073709551606 :: uint) \<and>
   DeviceInfo_AddUsedResources dev_example 0 18446744073709551615 =
     (dev_example\<lparr>dev_usedMemory := 0\<rparr>, None) \<and>
   unat (dev_totalMemory dev_example) <
     unat (dev_usedMemory dev_example) + unat (18446744073709551615 :: uint)"
  by (simp add: DeviceInfo_AddUsedResources_def dev_example_def HundredCore_def)

section \<open>Sorting by the comparator chain\<close>


lemma insertBy_insort_key:
  assumes "\<And>a b. lt a b = (key a < key b)"
  shows "insertBy lt x ys = insort_key key x ys"
  by (induction ys) (auto simp: assms)

lemma Sort_sort_key:
  assumes "\<And>a b. Less lfs a b = (key a < key b)"
  shows "Sort lfs xs = sort_key key xs"
  unfolding Sort_def by (induction xs) (simp_all add: insertBy_insort_key [OF assms])


lemma sorted_wrt_Less:
  fixes key :: "'a \<Rightarrow> 'b::linorder"
  assumes "\<And>a b. Less lfs a b = (key a < key b)"
  shows "sorted_wrt (\<lambda>a b. \<not> Less lfs b a) (Sort lfs xs)"
proof -
  have "sorted (map key (sort_key key xs))" by simp
  then have "sorted_wrt (\<lambda>a b. key a \<le> key b) (sort_key key xs)"
    by (simp add: sorted_map)
  then show ?thesis
    by (simp add: Sort_sort_key [OF assms] assms not_less)
qed







section \<open>Well-formed views and charging\<close>










section \<open>Share mode\<close>









lemmas ex_defs = node_ex_def dev_half_def view_of_def container_ex_def newDeviceInfo_def
  VCoreAnnotation_def VMemoryAnnotation_def GetGPUResourceOfContainer_def
  GetGPUDeviceCountOfNode_def GetCapacityOfNode_def int_quo_def HundredCore_def






section \<open>Exclusive mode\<close>













section \<open>Replay of the reservations (NewNodeInfo)\<close>

lemma applyReq_None_iff: "(applyReq r devs i = None) = (devs i = None)"
  by (auto simp: applyReq_def split: option.splits)

lemma fold_applyReq_None_iff: "(fold applyReq rs devs i = None) = (devs i = None)"
  by (induction rs arbitrary: devs) (simp_all add: applyReq_None_iff)

lemma NodeInfo_AddUsedResources_devs:
  assumes "ni_devs n i = Some d"
  shows "\<exists>n' e. NodeInfo_AddUsedResources n i vc vm = Ok (n', e) \<and>
     ni_devs n' = applyReq (i, vc, vm) (ni_devs n)"
proof (cases "DeviceInfo_AddUsedResources d vc vm")
  case (Pair d' e)
  then show ?thesis using assms
    by (cases e) (simp_all add: NodeInfo_AddUsedResources_def applyReq_def)
qed

lemma NodeInfo_AddUsedResources_nil:
  "ni_devs n i = None \<Longrightarrow> NodeInfo_AddUsedResources n i vc vm = Panic NilPointerDereference"
  by (simp add: NodeInfo_AddUsedResources_def)

lemma holds_devices_applyReq: "holds_devices D devs \<Longrightarrow> holds_devices D (applyReq r devs)"
  by (simp add: holds_devices_def applyReq_None_iff)

lemma holds_devices_fold: "holds_devices D devs \<Longrightarrow> holds_devices D (fold applyReq rs devs)"
  by (simp add: holds_devices_def fold_applyReq_None_iff)

lemma replayIndexes_ok:
  assumes "\<forall>idx\<in>set idxs. idx < D \<longrightarrow> 0 \<le> idx" and "holds_devices D (ni_devs ret)"
  shows "\<exists>ret'. replayIndexes c D dtm idxs ret = Ok ret' \<and>
     ni_devs ret' = fold applyReq (map (\<lambda>idx. (idx, replayRequest c dtm)) (filter (\<lambda>idx. idx < D) idxs))
                      (ni_devs ret)"
  using assms
proof (induction idxs arbitrary: ret)
  case Nil
  then show ?case by simp
next
  case (Cons idx idxs)
  show ?case
  proof (cases "idx \<ge> D")
    case True
    then show ?thesis using Cons by simp
  next
    case False
    with Cons.prems have "ni_devs ret idx \<noteq> None" by (simp add: holds_devices_def)
    then obtain d where d: "ni_devs ret idx = Some d" by blast
    from NodeInfo_AddUsedResources_devs [OF d] obtain n' e where
      n': "NodeInfo_AddUsedResources ret idx (fst (replayRequest c dtm)) (snd (replayRequest c dtm)) = Ok (n', e)"
      "ni_devs n' = applyReq (idx, fst (replayRequest c dtm), snd (replayRequest c dtm)) (ni_devs ret)"
      by blast
    have "holds_devices D (ni_devs n')" using n'(2) Cons.prems(2) by (simp add: holds_devices_applyReq)
    with Cons.IH [of n'] Cons.prems(1) obtain ret' where
      "replayIndexes c D dtm idxs n' = Ok ret'"
      "ni_devs ret' = fold applyReq (map (\<lambda>idx. (idx, replayRequest c dtm)) (filter (\<lambda>idx. idx < D) idxs)) (ni_devs n')"
      by auto
    then show ?thesis using False n' by simp
  qed
qed

lemma replayIndexes_negative:
  assumes "holds_devices D (ni_devs ret)" "idx \<in> set idxs" "idx < 0" "0 \<le> D"
  shows "replayIndexes c D dtm idxs ret = Panic NilPointerDereference"
  using assms
proof (induction idxs arbitrary: ret)
  case Nil
  then show ?case by simp
next
  case (Cons i idxs)
  show ?case
  proof (cases "i \<ge> D")
    case True
    then show ?thesis using Cons by auto
  next
    case False
    show ?thesis
    proof (cases "ni_devs ret i")
      case None
      then show ?thesis using False by (simp add: NodeInfo_AddUsedResources_nil)
    next
      case (Some d)
      from NodeInfo_AddUsedResources_devs [OF Some] obtain n' e where
        n': "NodeInfo_AddUsedResources ret i (fst (replayRequest c dtm)) (snd (replayRequest c dtm)) = Ok (n', e)"
        "ni_devs n' = applyReq (i, fst (replayRequest c dtm), snd (replayRequest c dtm)) (ni_devs ret)"
        by blast
      have h: "holds_devices D (ni_devs n')" using n'(2) Cons.prems(1) by (simp add: holds_devices_applyReq)
      have "ni_devs ret i \<noteq> None" using Some by simp
      then have "0 \<le> i" using Cons.prems(1) unfolding holds_devices_def by blast
      then have "i \<noteq> idx" using Cons.prems(3) by simp
      then have "idx \<in> set idxs" using Cons.prems by simp
      from Cons.IH [OF h this Cons.prems(3,4)] show ?thesis using False n' by simp
    qed
  qed
qed

lemma containerRequests_Ok:
  "GetPredicateIdxOfContainer pod (int i) = Ok idxs \<Longrightarrow>
   containerRequests D dtm pod (i, c) =
     map (\<lambda>idx. (idx, replayRequest c dtm)) (filter (\<lambda>idx. idx < D) idxs)"
  by (simp add: containerRequests_def)

lemma containerRequests_Err:
  "GetPredicateIdxOfContainer pod (int i) = Err e \<Longrightarrow> containerRequests D dtm pod (i, c) = []"
  by (simp add: containerRequests_def)

lemma atoiAll_no_panic: "atoiAll ss \<noteq> Panic p"
  by (induction ss) (auto simp: Atoi_def Let_def split: result.splits)

lemma GetPredicateIdx_no_panic: "GetPredicateIdxOfContainer pod i \<noteq> Panic p"
  by (simp add: GetPredicateIdxOfContainer_def atoiAll_no_panic split: option.splits)

lemma replayContainers_ok:
  assumes "\<forall>r\<in>set (concat (map (containerRequests D dtm pod) ics)). 0 \<le> fst r"
    and "holds_devices D (ni_devs ret)"
  shows "\<exists>ret'. replayContainers pod D dtm ics ret = Ok ret' \<and>
     ni_devs ret' = fold applyReq (concat (map (containerRequests D dtm pod) ics)) (ni_devs ret)"
  using assms
proof (induction ics arbitrary: ret)
  case Nil
  then show ?case by simp
next
  case (Cons ic ics)
  obtain i c where ic: "ic = (i, c)" by (cases ic)
  show ?case
  proof (cases "GetPredicateIdxOfContainer pod (int i)")
    case (Panic p)
    then show ?thesis using GetPredicateIdx_no_panic by blast
  next
    case (Err e)
    then show ?thesis using Cons ic by (simp add: containerRequests_Err)
  next
    case (Ok idxs)
    have req: "containerRequests D dtm pod ic =
        map (\<lambda>idx. (idx, replayRequest c dtm)) (filter (\<lambda>idx. idx < D) idxs)"
      using Ok ic by (simp add: containerRequests_Ok)
    have "\<forall>idx\<in>set idxs. idx < D \<longrightarrow> 0 \<le> idx"
    proof (intro ballI impI)
      fix idx assume "idx \<in> set idxs" "idx < D"
      then have "(idx, replayRequest c dtm) \<in> set (containerRequests D dtm pod ic)"
        unfolding req by simp
      then have "(idx, replayRequest c dtm) \<in> set (concat (map (containerRequests D dtm pod) (ic # ics)))"
        by simp
      with Cons.prems(1) have "0 \<le> fst (idx, replayRequest c dtm)" by blast
      then show "0 \<le> idx" by simp
    qed
    from replayIndexes_ok [OF this Cons.prems(2), of c dtm] obtain r1 where
      r1: "replayIndexes c D dtm idxs ret = Ok r1"
      "ni_devs r1 = fold applyReq (containerRequests D dtm pod ic) (ni_devs ret)"
      using req by auto
    have h: "holds_devices D (ni_devs r1)" using r1(2) Cons.prems(2) by (simp add: holds_devices_fold)
    have "\<forall>r\<in>set (concat (map (containerRequests D dtm pod) ics)). 0 \<le> fst r"
      using Cons.prems(1) by simp
    from Cons.IH [OF this h] obtain ret' where
      "replayContainers pod D dtm ics r1 = Ok ret'"
      "ni_devs ret' = fold applyReq (concat (map (containerRequests D dtm pod) ics)) (ni_devs r1)"
      by blast
    then show ?thesis using Ok ic r1 by simp
  qed
qed

lemma replayPods_ok:
  assumes "\<forall>r\<in>set (replayRequests D dtm pods). 0 \<le> fst r"
    and "holds_devices D (ni_devs ret)"
  shows "\<exists>ret'. replayPods D dtm pods ret = Ok ret' \<and>
     ni_devs ret' = fold applyReq (replayRequests D dtm pods) (ni_devs ret)"
  using assms
proof (induction pods arbitrary: ret)
  case Nil
  then show ?case by (simp add: replayRequests_def)
next
  case (Cons pod pods)
  have "\<forall>r\<in>set (concat (map (containerRequests D dtm pod) (enumerate 0 (pod_containers pod)))). 0 \<le> fst r"
    using Cons.prems(1) by (simp add: replayRequests_def)
  from replayContainers_ok [OF this Cons.prems(2)] obtain r1 where
    r1: "replayContainers pod D dtm (enumerate 0 (pod_containers pod)) ret = Ok r1"
    "ni_devs r1 = fold applyReq (concat (map (containerRequests D dtm pod) (enumerate 0 (pod_containers pod)))) (ni_devs ret)"
    by blast
  have h: "holds_devices D (ni_devs r1)" using r1(2) Cons.prems(2) by (simp add: holds_devices_fold)
  have "\<forall>r\<in>set (replayRequests D dtm pods). 0 \<le> fst r"
    using Cons.prems(1) by (simp add: replayRequests_def)
  from Cons.IH [OF this h] obtain ret' where
    "replayPods D dtm pods r1 = Ok ret'"
    "ni_devs ret' = fold applyReq (replayRequests D dtm pods) (ni_devs r1)"
    by blast
  then show ?case using r1 by (simp add: replayRequests_def)
qed

text \<open>Partial correctness: whenever the replay returns, it has applied the requests.\<close>

lemma NodeInfo_AddUsedResources_Ok:
  assumes "NodeInfo_AddUsedResources n i vc vm = Ok (n', e)"
  shows "ni_devs n' = applyReq (i, vc, vm) (ni_devs n) \<and> ni_deviceCount n' = ni_deviceCount n \<and>
         ni_node n' = ni_node n \<and> ni_name n' = ni_name n"
proof (cases "ni_devs n i")
  case None
  then show ?thesis using assms by (simp add: NodeInfo_AddUsedResources_def)
next
  case (Some d)
  obtain d' e' where r: "DeviceInfo_AddUsedResources d vc vm = (d', e')"
    by (cases "DeviceInfo_AddUsedResources d vc vm")
  show ?thesis using assms Some r
    by (cases e') (auto simp add: NodeInfo_AddUsedResources_def applyReq_def)
qed

lemma replayIndexes_returns:
  "replayIndexes c D dtm idxs ret = Ok ret' \<Longrightarrow>
     ni_devs ret' = fold applyReq (map (\<lambda>idx. (idx, replayRequest c dtm)) (filter (\<lambda>idx. idx < D) idxs))
                      (ni_devs ret) \<and>
     ni_deviceCount ret' = ni_deviceCount ret \<and> ni_node ret' = ni_node ret \<and> ni_name ret' = ni_name ret"
proof (induction idxs arbitrary: ret)
  case Nil
  then show ?case by simp
next
  case (Cons idx idxs)
  show ?case
  proof (cases "idx \<ge> D")
    case True
    then show ?thesis using Cons by simp
  next
    case False
    with Cons.prems obtain n' e where
      n': "NodeInfo_AddUsedResources ret idx (fst (replayRequest c dtm)) (snd (replayRequest c dtm)) = Ok (n', e)"
      and rest: "replayIndexes c D dtm idxs n' = Ok ret'"
      by (auto split: result.splits)
    from NodeInfo_AddUsedResources_Ok [OF n'] Cons.IH [OF rest] False show ?thesis by simp
  qed
qed

lemma replayContainers_returns:
  "replayContainers pod D dtm ics ret = Ok ret' \<Longrightarrow>
     ni_devs ret' = fold applyReq (concat (map (containerRequests D dtm pod) ics)) (ni_devs ret) \<and>
     ni_deviceCount ret' = ni_deviceCount ret \<and> ni_node ret' = ni_node ret \<and> ni_name ret' = ni_name ret"
proof (induction ics arbitrary: ret)
  case Nil
  then show ?case by simp
next
  case (Cons ic ics)
  obtain i c where ic: "ic = (i, c)" by (cases ic)
  show ?case
  proof (cases "GetPredicateIdxOfContainer pod (int i)")
    case (Panic p)
    then show ?thesis using GetPredicateIdx_no_panic by blast
  next
    case (Err e)
    then show ?thesis using Cons ic by (simp add: containerRequests_Err)
  next
    case (Ok idxs)
    with Cons.prems ic obtain r1 where
      r1: "replayIndexes c D dtm idxs ret = Ok r1"
      and rest: "replayContainers pod D dtm ics r1 = Ok ret'"
      by (auto split: result.splits)
    from replayIndexes_returns [OF r1] Cons.IH [OF rest] Ok ic show ?thesis
      by (simp add: containerRequests_Ok)
  qed
qed

lemma replayPods_returns:
  "replayPods D dtm pods ret = Ok ret' \<Longrightarrow>
     ni_devs ret' = fold applyReq (replayRequests D dtm pods) (ni_devs ret) \<and>
     ni_deviceCount ret' = ni_deviceCount ret \<and> ni_node ret' = ni_node ret \<and> ni_name ret' = ni_name ret"
proof (induction pods arbitrary: ret)
  case Nil
  then show ?case by (simp add: replayRequests_def)
next
  case (Cons pod pods)
  from Cons.prems obtain r1 where
    r1: "replayContainers pod D dtm (enumerate 0 (pod_containers pod)) ret = Ok r1"
    and rest: "replayPods D dtm pods r1 = Ok ret'"
    by (auto split: result.splits)
  from replayContainers_returns [OF r1] Cons.IH [OF rest] show ?case
    by (simp add: replayRequests_def)
qed

lemma reserveAll_id: "dev_id (reserveAll d ops) = dev_id d"
  by (induction d ops rule: reserveAll.induct) (simp_all add: DeviceInfo_AddUsedResources_def)

lemma fold_applyReq_device:
  "devs i = Some d \<Longrightarrow>
   fold applyReq rs devs i = Some (reserveAll d (map snd (filter (\<lambda>r. fst r = i) rs)))"
proof (induction rs arbitrary: devs d)
  case Nil
  then show ?case by simp
next
  case (Cons r rs)
  obtain j c m where r: "r = (j, c, m)" by (cases r)
  show ?case
  proof (cases "j = i")
    case True
    have "applyReq r devs i = Some (fst (DeviceInfo_AddUsedResources d c m))"
      using Cons.prems r True by (simp add: applyReq_def)
    from Cons.IH [of "applyReq r devs" "fst (DeviceInfo_AddUsedResources d c m)", OF this]
    show ?thesis using r True by simp
  next
    case False
    have "applyReq r devs i = Some d"
      using Cons.prems r False by (simp add: applyReq_def split: option.splits)
    from Cons.IH [of "applyReq r devs" d, OF this] show ?thesis using r False by simp
  qed
qed

lemma devMap_lookup:
  "fold (\<lambda>i m. m(i \<mapsto> newDeviceInfo i dtm)) is m0 j =
     (if j \<in> set is then Some (newDeviceInfo j dtm) else m0 j)"
  by (induction "is" arbitrary: m0) auto

lemma devMap_holds:
  "holds_devices D (fold (\<lambda>i m. m(i \<mapsto> newDeviceInfo i dtm)) [0..D - 1] Map.empty)"
  by (auto simp add: holds_devices_def devMap_lookup)

lemma NewNodeInfo_unfold:
  assumes "(word_of_int (GetGPUDeviceCountOfNode node) :: uint) \<noteq> 0"
  shows "NewNodeInfo node pods =
     replayPods (GetGPUDeviceCountOfNode node) (deviceTotalMemoryOf node) pods
       \<lparr>ni_name = node_name node, ni_node = node,
        ni_devs = fold (\<lambda>i m. m(i \<mapsto> newDeviceInfo i (deviceTotalMemoryOf node)))
                       [0..GetGPUDeviceCountOfNode node - 1] Map.empty,
        ni_deviceCount = GetGPUDeviceCountOfNode node,
        ni_totalMemory = word_of_int (GetCapacityOfNode node VMemoryAnnotation),
        ni_usedCore = 0, ni_usedMemory = 0\<rparr>"
  using assms by (simp add: NewNodeInfo_def deviceTotalMemoryOf_def Let_def)

lemma NewNodeInfo_zero:
  "(word_of_int (GetGPUDeviceCountOfNode node) :: uint) = 0 \<Longrightarrow>
   NewNodeInfo node pods = Panic DivideByZero"
  by (simp add: NewNodeInfo_def Let_def)

lemma NewNodeInfo_returns:
  assumes "NewNodeInfo node pods = Ok n"
  shows "(word_of_int (GetGPUDeviceCountOfNode node) :: uint) \<noteq> 0"
    and "ni_deviceCount n = GetGPUDeviceCountOfNode node"
    and "ni_node n = node" and "ni_name n = node_name node"
    and "0 \<le> i \<Longrightarrow> i < GetGPUDeviceCountOfNode node \<Longrightarrow>
         ni_devs n i = Some (reserveAll (newDeviceInfo i (deviceTotalMemoryOf node))
           (map snd (filter (\<lambda>r. fst r = i)
              (replayRequests (GetGPUDeviceCountOfNode node) (deviceTotalMemoryOf node) pods))))"
proof -
  show nz: "(word_of_int (GetGPUDeviceCountOfNode node) :: uint) \<noteq> 0"
    using assms NewNodeInfo_zero [of node pods] by auto
  note r = replayPods_returns [OF assms [unfolded NewNodeInfo_unfold [OF nz]]]
  show "ni_deviceCount n = GetGPUDeviceCountOfNode node" using r by simp
  show "ni_node n = node" using r by simp
  show "ni_name n = node_name node" using r by simp
  assume i: "0 \<le> i" "i < GetGPUDeviceCountOfNode node"
  define devMap where "devMap = fold (\<lambda>i m. m(i \<mapsto> newDeviceInfo i (deviceTotalMemoryOf node)))
          [0..GetGPUDeviceCountOfNode node - 1] Map.empty"
  have "devMap i = Some (newDeviceInfo i (deviceTotalMemoryOf node))"
    using i by (simp add: devMap_def devMap_lookup)
  from fold_applyReq_device [of devMap i "newDeviceInfo i (deviceTotalMemoryOf node)"
      "replayRequests (GetGPUDeviceCountOfNode node) (deviceTotalMemoryOf node) pods", OF this] r
  show "ni_devs n i = Some (reserveAll (newDeviceInfo i (deviceTotalMemoryOf node))
           (map snd (filter (\<lambda>r. fst r = i)
              (replayRequests (GetGPUDeviceCountOfNode node) (deviceTotalMemoryOf node) pods))))"
    by (simp add: devMap_def)
qed

lemma NewNodeInfo_total:
  assumes nz: "(word_of_int (GetGPUDeviceCountOfNode node) :: uint) \<noteq> 0"
    and nonneg: "\<forall>r\<in>set (replayRequests (GetGPUDeviceCountOfNode node) (deviceTotalMemoryOf node) pods). 0 \<le> fst r"
  shows "\<exists>n. NewNodeInfo node pods = Ok n"
proof -
  have "holds_devices (GetGPUDeviceCountOfNode node)
     (ni_devs \<lparr>ni_name = node_name node, ni_node = node,
        ni_devs = fold (\<lambda>i m. m(i \<mapsto> newDeviceInfo i (deviceTotalMemoryOf node)))
                       [0..GetGPUDeviceCountOfNode node - 1] Map.empty,
        ni_deviceCount = GetGPUDeviceCountOfNode node,
        ni_totalMemory = word_of_int (GetCapacityOfNode node VMemoryAnnotation),
        ni_usedCore = 0, ni_usedMemory = 0\<rparr>)"
    by (simp add: devMap_holds)
  from replayPods_ok [OF nonneg this] show ?thesis
    unfolding NewNodeInfo_unfold [OF nz] by blast
qed

lemma replayRequests_below:
  "r \<in> set (replayRequests D dtm pods) \<Longrightarrow> fst r < D"
  by (auto simp: replayRequests_def containerRequests_def split: result.splits)

lemma NewNodeInfo_wf:
  assumes "NewNodeInfo node pods = Ok n" and "0 \<le> GetGPUDeviceCountOfNode node"
  shows "wf_node n"
proof -
  note r = NewNodeInfo_returns [OF assms(1)]
  have "case ni_devs n i of None \<Rightarrow> False | Some d \<Rightarrow> dev_id d = i \<and> dev_inv d"
    if "i \<in> set [0..ni_deviceCount n - 1]" for i
  proof -
    from that r(2) have i: "0 \<le> i" "i < GetGPUDeviceCountOfNode node" by simp_all
    show ?thesis unfolding r(5) [OF i]
      by (simp add: reserveAll_id reserveAll_keeps_inv newDeviceInfo_inv) (simp add: newDeviceInfo_def)
  qed
  then show ?thesis using assms(2) r(2) by (simp add: wf_node_def list_all_iff)
qed

text \<open>
  The view \<open>NewNodeInfo\<close> builds is the replay of the annotations: a listed index at or
  above the device count \<open>D\<close> stands for no reservation and never stops the
  construction; every other listed index stands for a reservation of \<open>(cores, memory)\<close>
  when the container asks for fewer than 100 cores and of \<open>(100, deviceTotalMemory)\<close>
  otherwise; every device of a view that was built holds exactly the reservations listed
  for it, in order, each one that would exceed the device dropped (\<open>reserveAll\<close>); and
  the view is built whenever the device count is not zero and no listed index is negative,
  whatever indices are out of range and whatever reservations are refused.
\<close>

lemma replay_of_reservations:
  assumes D: "D = GetGPUDeviceCountOfNode node"
    and dtm: "deviceTotalMemory = deviceTotalMemoryOf node"
  shows
    "(\<forall>r\<in>set (replayRequests D deviceTotalMemory pods). fst r < D) \<and>
     (\<forall>c. replayRequest c deviceTotalMemory =
        (if GetGPUResourceOfContainer c VCoreAnnotation < 100
           then (GetGPUResourceOfContainer c VCoreAnnotation,
                 GetGPUResourceOfContainer c VMemoryAnnotation)
         else (100, deviceTotalMemory))) \<and>
     (\<forall>n. NewNodeInfo node pods = Ok n \<longrightarrow>
        (\<forall>i. 0 \<le> i \<and> i < D \<longrightarrow>
           ni_devs n i =
             Some (reserveAll (newDeviceInfo i deviceTotalMemory)
                     (map snd (filter (\<lambda>r. fst r = i)
                                      (replayRequests D deviceTotalMemory pods)))))) \<and>
     ((word_of_int D :: uint) \<noteq> 0 \<and>
      (\<forall>r\<in>set (replayRequests D deviceTotalMemory pods). 0 \<le> fst r) \<longrightarrow>
        (\<exists>n. NewNodeInfo node pods = Ok n))"
proof -
  have 1: "\<forall>r\<in>set (replayRequests D deviceTotalMemory pods). fst r < D"
    using replayRequests_below by blast
  have 2: "\<forall>c. replayRequest c deviceTotalMemory =
        (if GetGPUResourceOfContainer c VCoreAnnotation < 100
           then (GetGPUResourceOfContainer c VCoreAnnotation,
                 GetGPUResourceOfContainer c VMemoryAnnotation)
         else (100, deviceTotalMemory))"
    by (simp add: replayRequest_def HundredCore_def Let_def)
  have 3: "\<forall>n. NewNodeInfo node pods = Ok n \<longrightarrow>
        (\<forall>i. 0 \<le> i \<and> i < D \<longrightarrow>
           ni_devs n i =
             Some (reserveAll (newDeviceInfo i deviceTotalMemory)
                     (map snd (filter (\<lambda>r. fst r = i)
                                      (replayRequests D deviceTotalMemory pods)))))"
    using NewNodeInfo_returns(5) [of node pods] unfolding D dtm by blast
  have 4: "(word_of_int D :: uint) \<noteq> 0 \<and>
      (\<forall>r\<in>set (replayRequests D deviceTotalMemory pods). 0 \<le> fst r) \<longrightarrow>
        (\<exists>n. NewNodeInfo node pods = Ok n)"
    using NewNodeInfo_total [of node pods] unfolding D dtm by blast
  show ?thesis using 1 2 3 4 by blast
qed

lemma replayRequests_placed:
  "replayRequests 2 4 placed_pods = [(0, 10, 1), (1, 100, 4), (0, 95, 1)]"
  by code_simp

lemma replay_of_reservations_example:
  "\<exists>n. NewNodeInfo node_ex placed_pods = Ok n \<and>
       ni_devs n 0 = Some \<lparr>dev_id = 0, dev_totalMemory = 4, dev_usedMemory = 1, dev_usedCore = 10\<rparr> \<and>
       ni_devs n 1 = Some \<lparr>dev_id = 1, dev_totalMemory = 4, dev_usedMemory = 4, dev_usedCore = 100\<rparr>"
proof -
  have D: "(2::int) = GetGPUDeviceCountOfNode node_ex" by (simp add: ex_defs)
  have dtm: "(4::uint) = deviceTotalMemoryOf node_ex" by (simp add: deviceTotalMemoryOf_def ex_defs)
  note t = replay_of_reservations [OF D dtm, of placed_pods, unfolded replayRequests_placed]
  from t obtain n where n: "NewNodeInfo node_ex placed_pods = Ok n" by auto
  from t n have "ni_devs n 0 = Some (reserveAll (newDeviceInfo 0 4) [(10, 1), (95, 1)])"
    and "ni_devs n 1 = Some (reserveAll (newDeviceInfo 1 4) [(100, 4)])"
    by auto
  then show ?thesis using n
    by (simp add: newDeviceInfo_def DeviceInfo_AddUsedResources_def HundredCore_def)
qed

section \<open>Views of annotations the filter did not write\<close>


lemma idx_negative_pod: "GetPredicateIdxOfContainer negative_pod 0 = Ok [- 1]"
  by code_simp



lemma pods_negative: "ListPodsOnNode cluster_negative node_ex = Inr [negative_pod]"
  by (simp add: ListPodsOnNode_def cluster_negative_def negative_pod_def pod_ex_def node_ex_def Let_def)

text \<open>
  C6. A listed index below zero is below the device count, so it is not discarded; the
  device map has no such key, and \<open>NewNodeInfo\<close> calls \<open>AddUsedResources\<close> on the nil
  device: the construction of the view panics, and with it the device filter and
  \<open>Filter\<close> for every pod that requests GPU while the node is a candidate.
\<close>

theorem C6_negative_index_panics:
  "GetPredicateIdxOfContainer negative_pod 0 = Ok [- 1] \<and>
   GetGPUDeviceCountOfNode node_ex = 2 \<and>
   NewNodeInfo node_ex [negative_pod] = Panic NilPointerDereference \<and>
   IsGPURequiredPod gpu_pod \<and>
   ListPodsOnNode cluster_negative node_ex = Inr [negative_pod] \<and>
   deviceFilter cluster_negative gpu_pod [node_ex] = Panic NilPointerDereference \<and>
   Filter cluster_negative gpu_pod [node_ex] = Panic NilPointerDereference"
proof -
  have c: "pod_containers negative_pod = [container_ex 10 1]" by (simp add: negative_pod_def pod_ex_def)
  have D: "GetGPUDeviceCountOfNode node_ex = 2" by (simp add: ex_defs)
  have v: "NewNodeInfo node_ex [negative_pod] = Panic NilPointerDereference"
    by (simp add: NewNodeInfo_def Let_def c idx_negative_pod [simplified]
        NodeInfo_AddUsedResources_def
        node_ex_def GetGPUDeviceCountOfNode_def GetCapacityOfNode_def int_quo_def
        VCoreAnnotation_def VMemoryAnnotation_def newDeviceInfo_def upto.simps)
  have p: "IsGPURequiredPod gpu_pod" "\<not> alreadyPredicated gpu_pod" by code_simp+
  have g: "IsGPUEnabledNode node_ex"
    by (simp add: IsGPUEnabledNode_def GetCapacityOfNode_def node_ex_def VCoreAnnotation_def)
  have b: "buildNodeInfoList cluster_negative [node_ex] Map.empty [] = Panic NilPointerDereference"
    by (simp add: g pods_negative v)
  have d: "deviceFilter cluster_negative gpu_pod [node_ex] = Panic NilPointerDereference"
    by (simp add: deviceFilter_def p deviceFilterNodes_def b del: buildNodeInfoList.simps)
  have f: "Filter cluster_negative gpu_pod [node_ex] = Panic NilPointerDereference"
    by (simp add: Filter_def p d)
  show ?thesis using idx_negative_pod D v p(1) pods_negative d f by simp
qed

section \<open>The guard on GPU nodes\<close>

text \<open>
  The guard \<open>IsGPUEnabledNode\<close> asks for a capacity above zero; the device count is the
  capacity divided by a hundred. From a hundred vcores on the count is not zero; below, the
  guard passes, the count is zero and \<open>NewNodeInfo\<close> divides by it.
\<close>

lemma guard_admits_under_hundred:
  assumes "map_of (node_capacity node) VCoreAnnotation = Some v" "0 < v" "v < 100"
  shows "IsGPUEnabledNode node" "GetGPUDeviceCountOfNode node = 0"
    "NewNodeInfo node pods = Panic DivideByZero"
proof -
  show "IsGPUEnabledNode node" using assms by (simp add: IsGPUEnabledNode_def GetCapacityOfNode_def)
  show c: "GetGPUDeviceCountOfNode node = 0"
    using assms by (simp add: GetGPUDeviceCountOfNode_def int_quo_def)
  show "NewNodeInfo node pods = Panic DivideByZero" by (simp add: NewNodeInfo_zero c)
qed

lemma guard_sound_from_hundred:
  assumes "map_of (node_capacity node) VCoreAnnotation = Some v" "100 \<le> v" "v < 2 ^ 63"
  shows "(word_of_int (GetGPUDeviceCountOfNode node) :: uint) \<noteq> 0"
proof -
  have d: "GetGPUDeviceCountOfNode node = v div 100"
    using assms by (simp add: GetGPUDeviceCountOfNode_def int_quo_def)
  have "1 \<le> v div 100" using assms(2) by simp
  moreover have "v div 100 < 2 ^ 64" using assms(3) by simp
  ultimately have "uint (word_of_int (v div 100) :: uint) = v div 100"
    by (simp add: uint_word_of_int take_bit_int_eq_self)
  then show ?thesis using d \<open>1 \<le> v div 100\<close> by (metis not_one_le_zero uint_0_eq)
qed

text \<open>
  C10. A node that reports 50 vcores passes \<open>IsGPUEnabledNode\<close>, its device count is
  zero, and \<open>NewNodeInfo\<close> divides by it: the device filter and \<open>Filter\<close> of both
  versions panic on a pod that requests GPU and has this node among its candidates.
\<close>

theorem C10_guard_admits_zero_devices:
  "IsGPUEnabledNode node_small \<and> GetGPUDeviceCountOfNode node_small = 0 \<and>
   NewNodeInfo node_small [] = Panic DivideByZero \<and>
   IsGPURequiredPod gpu_pod \<and>
   deviceFilter cluster_ex gpu_pod [node_small] = Panic DivideByZero \<and>
   Filter cluster_ex gpu_pod [node_small] = Panic DivideByZero \<and>
   Filter_quota (setQuota (newGPUFilter conf_ex) [] ''none'') cluster_ex gpu_pod [node_small] = Panic DivideByZero"
proof -
  have g: "IsGPUEnabledNode node_small"
    by (simp add: IsGPUEnabledNode_def GetCapacityOfNode_def node_small_def VCoreAnnotation_def)
  have c: "GetGPUDeviceCountOfNode node_small = 0"
    by (simp add: GetGPUDeviceCountOfNode_def node_small_def int_quo_def VCoreAnnotation_def)
  have n: "NewNodeInfo node_small [] = Panic DivideByZero"
    by (simp add: NewNodeInfo_def c Let_def)
  have p: "IsGPURequiredPod gpu_pod" "\<not> alreadyPredicated gpu_pod" by code_simp+
  have l: "ListPodsOnNode cluster_ex node_small = Inr []"
    by (simp add: ListPodsOnNode_def cluster_ex_def)
  have b: "buildNodeInfoList cluster_ex [node_small] Map.empty [] = Panic DivideByZero"
    by (simp add: g l n)
  have d: "deviceFilter cluster_ex gpu_pod [node_small] = Panic DivideByZero"
    "deviceFilter_quota cluster_ex gpu_pod [node_small] = Panic DivideByZero"
    by (simp_all add: deviceFilter_def deviceFilter_quota_def p deviceFilterNodes_def b
        del: buildNodeInfoList.simps)
  have f: "Filter cluster_ex gpu_pod [node_small] = Panic DivideByZero"
    by (simp add: Filter_def p d)
  have q: "quotaFilter (setQuota (newGPUFilter conf_ex) [] ''none'') cluster_ex gpu_pod [node_small] =
             ([node_small], Map.empty, None)"
    by (simp add: quotaFilter_def getQuotaForNamespace_def setQuota_def)
  have r: "quotaLastSyncedRevision (setQuota (newGPUFilter conf_ex) [] ''none'') \<noteq> []"
    by (simp add: setQuota_def)
  have fq: "Filter_quota (setQuota (newGPUFilter conf_ex) [] ''none'') cluster_ex gpu_pod [node_small] = Panic DivideByZero"
    by (simp add: Filter_quota_def p r q d)
  show ?thesis using g c n p(1) d(1) f fq by simp
qed

section \<open>The walk over the sorted views\<close>

lemma Less_nodeSorter: "Less nodeSorter a b = (nodeKey a < nodeKey b)"
  by (auto simp: nodeSorter_def nodeKey_def ByAllocatableCores_node_def ByAllocatableMemory_node_def ByID_node_def)

lemma Sort_nodes: "Sort nodeSorter xs = sort_key nodeKey xs"
  by (rule Sort_sort_key) (rule Less_nodeSorter)

lemma Sort_nodes_props:
  "sorted_wrt (\<lambda>a b. \<not> Less nodeSorter b a) (Sort nodeSorter xs)"
  "mset (Sort nodeSorter xs) = mset xs"
  "set (Sort nodeSorter xs) = set xs"
proof -
  show "sorted_wrt (\<lambda>a b. \<not> Less nodeSorter b a) (Sort nodeSorter xs)"
    by (rule sorted_wrt_Less [of nodeSorter nodeKey, OF Less_nodeSorter])
qed (simp_all add: Sort_nodes)

lemma walk_after_success:
  "\<exists>fm'. walkNodeInfoList env pod infos True filtered fm = Ok (filtered, fm') \<and>
     dom fm' = dom fm \<union> (\<lambda>ni. node_name (ni_node ni)) ` set infos"
proof (induction infos arbitrary: fm)
  case Nil
  then show ?case by simp
next
  case (Cons ni infos)
  define fm1 where "fm1 = fm(node_name (ni_node ni) \<mapsto> alreadyMatchedReason pod)"
  from Cons [of fm1] obtain fm' where
    1: "walkNodeInfoList env pod infos True filtered fm1 = Ok (filtered, fm')"
    and 2: "dom fm' = dom fm1 \<union> (\<lambda>ni. node_name (ni_node ni)) ` set infos" by blast
  have 3: "walkNodeInfoList env pod (ni # infos) True filtered fm =
           walkNodeInfoList env pod infos True filtered fm1"
    by (simp add: Let_def fm1_def)
  have 4: "dom fm1 = insert (node_name (ni_node ni)) (dom fm)" by (simp add: fm1_def)
  have "dom fm' = dom fm \<union> (\<lambda>ni. node_name (ni_node ni)) ` set (ni # infos)"
    using 2 4 by auto
  with 1 3 show ?case by simp
qed

lemma walk_step_success:
  assumes "succeedsOn env pod ni"
  shows "walkNodeInfoList env pod (ni # rest) False filtered fm =
     walkNodeInfoList env pod rest True (filtered @ [ni_node ni]) fm"
proof -
  from assms obtain n' newPod where
    a: "Allocate ni (cl_now env (node_name (ni_node ni))) pod = Ok (n', newPod)"
    and p: "patchPodWithAnnotations env newPod (patchAnnotations newPod) = None"
    by (auto simp: succeedsOn_def split: result.splits)
  show ?thesis by (simp add: Let_def a p)
qed

lemma walk_step_patch_failure:
  assumes "patchFailsOn env pod ni"
  shows "walkNodeInfoList env pod (ni # rest) False filtered fm =
     walkNodeInfoList env pod rest False filtered
       (fm(node_name (ni_node ni) \<mapsto> ''update pod annotation failed''))"
proof -
  from assms obtain n' newPod e where
    a: "Allocate ni (cl_now env (node_name (ni_node ni))) pod = Ok (n', newPod)"
    and p: "patchPodWithAnnotations env newPod (patchAnnotations newPod) = Some e"
    by (auto simp: patchFailsOn_def split: result.splits)
  show ?thesis by (simp add: Let_def a p)
qed

lemma walk_step_no_success:
  assumes ns: "\<not> succeedsOn env pod ni"
    and w: "walkNodeInfoList env pod (ni # rest) False filtered fm = Ok res"
  shows "\<exists>reason. walkNodeInfoList env pod rest False filtered (fm(node_name (ni_node ni) \<mapsto> reason)) = Ok res"
proof (cases "Allocate ni (cl_now env (node_name (ni_node ni))) pod")
  case (Panic p)
  then show ?thesis using w by (simp add: Let_def)
next
  case (Err e)
  then show ?thesis using w by (auto simp add: Let_def)
next
  case (Ok r)
  obtain n' newPod where r: "r = (n', newPod)" by (cases r)
  from ns Ok r obtain e where
    p: "patchPodWithAnnotations env newPod (patchAnnotations newPod) = Some e"
    by (auto simp: succeedsOn_def)
  show ?thesis using w Ok r p by (auto simp add: Let_def)
qed

lemma walk_accepts_first:
  "walkNodeInfoList env pod infos False filtered fm = Ok (acc, fm') \<Longrightarrow>
   acc = filtered @ (case find (succeedsOn env pod) infos of None \<Rightarrow> [] | Some ni \<Rightarrow> [ni_node ni]) \<and>
   dom fm \<subseteq> dom fm' \<and>
   (\<forall>ni\<in>set infos. node_name (ni_node ni) \<in> dom fm' \<or> find (succeedsOn env pod) infos = Some ni)"
proof (induction infos arbitrary: fm)
  case Nil
  then show ?case by simp
next
  case (Cons ni infos)
  show ?case
  proof (cases "succeedsOn env pod ni")
    case True
    from walk_after_success [of env pod infos "filtered @ [ni_node ni]" fm] obtain fm1 where
      1: "walkNodeInfoList env pod infos True (filtered @ [ni_node ni]) fm = Ok (filtered @ [ni_node ni], fm1)"
      and 2: "dom fm1 = dom fm \<union> (\<lambda>ni. node_name (ni_node ni)) ` set infos" by blast
    from Cons.prems [unfolded walk_step_success [OF True]] 1
    have eq: "acc = filtered @ [ni_node ni]" "fm' = fm1"
      by simp_all
    have f: "find (succeedsOn env pod) (ni # infos) = Some ni" using True by simp
    show ?thesis unfolding f using eq 2 by auto
  next
    case False
    from walk_step_no_success [OF False Cons.prems] obtain reason where
      w: "walkNodeInfoList env pod infos False filtered (fm(node_name (ni_node ni) \<mapsto> reason)) = Ok (acc, fm')"
      by blast
    note IH = Cons.IH [OF w]
    have f: "find (succeedsOn env pod) (ni # infos) = find (succeedsOn env pod) infos"
      using False by simp
    have sub: "dom (fm(node_name (ni_node ni) \<mapsto> reason)) \<subseteq> dom fm'" using IH by blast
    have "dom (fm(node_name (ni_node ni) \<mapsto> reason)) = insert (node_name (ni_node ni)) (dom fm)"
      by simp
    with sub have d: "node_name (ni_node ni) \<in> dom fm'" "dom fm \<subseteq> dom fm'" by blast+
    have rest: "\<forall>x\<in>set infos. node_name (ni_node x) \<in> dom fm' \<or> find (succeedsOn env pod) infos = Some x"
      using IH by blast
    have acc: "acc = filtered @ (case find (succeedsOn env pod) infos of None \<Rightarrow> [] | Some ni \<Rightarrow> [ni_node ni])"
      using IH by blast
    show ?thesis unfolding f using acc d rest by simp
  qed
qed

lemma view_ex_generic: "NewNodeInfo (gpu_node name) [] =
   Ok \<lparr>ni_name = name, ni_node = gpu_node name, ni_devs = [0 \<mapsto> newDeviceInfo 0 4],
       ni_deviceCount = 1, ni_totalMemory = 4, ni_usedCore = 0, ni_usedMemory = 0\<rparr>"
  by (simp add: NewNodeInfo_def gpu_node_def GetCapacityOfNode_def GetGPUDeviceCountOfNode_def
      VCoreAnnotation_def VMemoryAnnotation_def int_quo_def Let_def upto.simps)

lemma patch_fails_node0: "patchFailsOn cluster_ex gpu_pod (view_ex ''node0'')"
  by code_simp

lemma succeeds_node1: "succeedsOn cluster_ex gpu_pod (view_ex ''node1'')"
  by code_simp

lemma sort_two_views: "Sort nodeSorter [view_ex ''node0'', view_ex ''node1''] = [view_ex ''node0'', view_ex ''node1'']"
  by (simp add: Sort_def nodeSorter_def ByAllocatableCores_node_def ByAllocatableMemory_node_def ByID_node_def
     GetAvailableCore_def GetAvailableMemory_def view_ex_def)

section \<open>The views of the candidates\<close>

lemma viewOf_node: "viewOf env ni node \<Longrightarrow> ni_node ni = node \<and> ni_name ni = node_name node"
  by (auto simp: viewOf_def NewNodeInfo_returns split: sum.splits)

lemma dom_upd_subD: "dom (fm(k \<mapsto> v)) \<subseteq> S \<Longrightarrow> dom fm \<subseteq> S \<and> k \<in> S"
  by auto

lemma build_spec:
  "buildNodeInfoList env nodes fm acc = Ok (fm', infos) \<Longrightarrow>
   dom fm \<subseteq> dom fm' \<and>
   (\<exists>views. infos = acc @ views \<and> list_all2 (viewOf env) views (filter (hasView env) nodes)) \<and>
   (\<forall>node\<in>set nodes. node_name node \<in> dom fm' \<or> hasView env node)"
proof (induction nodes arbitrary: fm acc)
  case Nil
  then show ?case by simp
next
  case (Cons node nodes)
  show ?case
  proof (cases "hasView env node")
    case False
    have "\<exists>reason.
      buildNodeInfoList env nodes (fm(node_name node \<mapsto> reason)) acc = Ok (fm', infos)"
    proof (cases "IsGPUEnabledNode node")
      case False
      with Cons.prems show ?thesis by auto
    next
      case True
      with \<open>\<not> hasView env node\<close> obtain err where "ListPodsOnNode env node = Inl err"
        by (cases "ListPodsOnNode env node") (auto simp: hasView_def)
      with Cons.prems True show ?thesis by auto
    qed
    then obtain reason where
      "buildNodeInfoList env nodes (fm(node_name node \<mapsto> reason)) acc = Ok (fm', infos)"
      by blast
    note IH = Cons.IH [OF this]
    from IH have "dom (fm(node_name node \<mapsto> reason)) \<subseteq> dom fm'" by blast
    from dom_upd_subD [OF this] have d: "dom fm \<subseteq> dom fm'" "node_name node \<in> dom fm'" by simp_all
    from IH obtain views where
      views: "infos = acc @ views" "list_all2 (viewOf env) views (filter (hasView env) nodes)"
      by blast
    have o: "\<forall>n\<in>set nodes. node_name n \<in> dom fm' \<or> hasView env n" using IH by blast
    have "list_all2 (viewOf env) views (filter (hasView env) (node # nodes))"
      using views(2) False by simp
    then show ?thesis using d o views(1) by auto
  next
    case True
    then obtain pods where pods: "ListPodsOnNode env node = Inr pods" and gpu: "IsGPUEnabledNode node"
      by (cases "ListPodsOnNode env node") (auto simp: hasView_def)
    with Cons.prems obtain ni where
      ni: "NewNodeInfo node pods = Ok ni"
      and rest: "buildNodeInfoList env nodes fm (acc @ [ni]) = Ok (fm', infos)"
      by (auto split: result.splits)
    have v: "viewOf env ni node" using pods ni by (simp add: viewOf_def)
    from Cons.IH [OF rest] obtain views where
      views: "infos = (acc @ [ni]) @ views" "list_all2 (viewOf env) views (filter (hasView env) nodes)"
      and d: "dom fm \<subseteq> dom fm'"
      and o: "\<forall>node\<in>set nodes. node_name node \<in> dom fm' \<or> hasView env node"
      by blast
    have "infos = acc @ (ni # views)" using views(1) by simp
    moreover have "list_all2 (viewOf env) (ni # views) (filter (hasView env) (node # nodes))"
      using views(2) v True by simp
    ultimately show ?thesis using d o True by auto
  qed
qed

lemma views_nodes:
  assumes "list_all2 (viewOf env) views ns"
  shows "map ni_node views = ns"
  using assms by (induction rule: list_all2_induct) (simp_all add: viewOf_node)

lemma views_cover:
  assumes "list_all2 (viewOf env) views (filter (hasView env) nodes)"
    and "node \<in> set nodes" "hasView env node"
  shows "\<exists>ni\<in>set views. ni_node ni = node"
proof -
  from assms(2,3) have "node \<in> set (filter (hasView env) nodes)" by simp
  then have "node \<in> set (map ni_node views)" using views_nodes [OF assms(1)] by simp
  then show ?thesis by auto
qed

section \<open>The device filter\<close>

lemma deviceFilter_not_predicated:
  "\<not> alreadyPredicated pod \<Longrightarrow> deviceFilter env pod nodes = deviceFilterNodes env pod nodes"
  "\<not> alreadyPredicated pod \<Longrightarrow> deviceFilter_quota env pod nodes = deviceFilterNodes env pod nodes"
  by (simp_all add: deviceFilter_def deviceFilter_quota_def)

lemma deviceFilterNodes_returns:
  assumes "deviceFilterNodes env pod nodes = Ok (accepted, failed, err)"
  obtains fm0 infos where
    "buildNodeInfoList env nodes Map.empty [] = Ok (fm0, infos)"
    "walkNodeInfoList env pod (Sort nodeSorter infos) False [] fm0 = Ok (accepted, failed)"
    "err = None"
  using assms by (auto simp: deviceFilterNodes_def split: result.splits)

text \<open>
  C1 (amended). For a pod that bears no predicate annotation, whenever the device filter
  returns: it returns no error and accepts at most one node; the views are those of the
  candidates that pass the guard and whose pods are listed, sorted ascending by
  \<open>(availableCores, availableMemory, name)\<close>; the accepted node is the node of the first
  view of that order on which the allocation and the patch both succeed, and none when
  there is no such view; every candidate that is not accepted has a reason in the map of
  failed nodes. Both versions of the filter agree.
\<close>

theorem C1_device_filter_first_success:
  assumes np: "\<not> alreadyPredicated pod"
    and res: "deviceFilter env pod nodes = Ok (accepted, failed, err)"
  shows "err = None \<and> deviceFilter_quota env pod nodes = Ok (accepted, failed, err) \<and>
     length accepted \<le> 1 \<and>
     (\<forall>a b. Less nodeSorter a b =
        ((GetAvailableCore a, GetAvailableMemory a, ni_name a) <
         (GetAvailableCore b, GetAvailableMemory b, ni_name b))) \<and>
     (\<exists>fm0 infos.
        buildNodeInfoList env nodes Map.empty [] = Ok (fm0, infos) \<and>
        list_all2 (viewOf env) infos (filter (hasView env) nodes) \<and>
        sorted_wrt (\<lambda>a b. \<not> Less nodeSorter b a) (Sort nodeSorter infos) \<and>
        mset (Sort nodeSorter infos) = mset infos \<and>
        accepted = (case find (succeedsOn env pod) (Sort nodeSorter infos) of
                      None \<Rightarrow> [] | Some ni \<Rightarrow> [ni_node ni])) \<and>
     (\<forall>node\<in>set nodes. node \<in> set accepted \<or> node_name node \<in> dom failed)"
proof -
  from res np have r: "deviceFilterNodes env pod nodes = Ok (accepted, failed, err)"
    by (simp add: deviceFilter_not_predicated)
  from r obtain fm0 infos where
    b: "buildNodeInfoList env nodes Map.empty [] = Ok (fm0, infos)"
    and w: "walkNodeInfoList env pod (Sort nodeSorter infos) False [] fm0 = Ok (accepted, failed)"
    and e: "err = None"
    by (rule deviceFilterNodes_returns)
  note bs = build_spec [OF b]
  from bs have views: "list_all2 (viewOf env) infos (filter (hasView env) nodes)" by simp
  note ws = walk_accepts_first [OF w]
  have acc: "accepted = (case find (succeedsOn env pod) (Sort nodeSorter infos) of
                      None \<Rightarrow> [] | Some ni \<Rightarrow> [ni_node ni])"
    using ws by simp
  have len: "length accepted \<le> 1" unfolding acc by (simp split: option.splits)
  have cover: "node \<in> set accepted \<or> node_name node \<in> dom failed" if n: "node \<in> set nodes" for node
  proof (cases "hasView env node")
    case False
    with bs n have "node_name node \<in> dom fm0" by blast
    then show ?thesis using ws by blast
  next
    case True
    from views_cover [OF views n True] obtain ni where ni: "ni \<in> set infos" "ni_node ni = node"
      by blast
    then have "ni \<in> set (Sort nodeSorter infos)" by (simp add: Sort_nodes_props)
    with ws have "node_name (ni_node ni) \<in> dom failed \<or>
        find (succeedsOn env pod) (Sort nodeSorter infos) = Some ni" by blast
    then show ?thesis using acc ni(2) by auto
  qed
  have key: "\<forall>a b. Less nodeSorter a b =
        ((GetAvailableCore a, GetAvailableMemory a, ni_name a) <
         (GetAvailableCore b, GetAvailableMemory b, ni_name b))"
    using Less_nodeSorter by (simp add: nodeKey_def)
  have q: "deviceFilter_quota env pod nodes = Ok (accepted, failed, err)"
    using r np by (simp add: deviceFilter_not_predicated)
  show ?thesis using e q len key b views Sort_nodes_props(1,2) [of infos] acc cover by blast
qed

text \<open>
  C2 (amended). A pod with an annotation key that contains \<open>gpu-assigned\<close>,
  \<open>predicate-time\<close> or \<open>predicate-gpu-idx-\<close>: the device filter of either version
  accepts no node (one version reports an error, the other none); when such a pod requests
  GPU the pipeline of either version returns with no node accepted; when it requests no
  GPU the pipeline of either version leaves at its fast exit and returns every candidate.
\<close>

theorem C2_predicated_pod_is_never_accepted:
  assumes "alreadyPredicated pod"
  shows "deviceFilter env pod nodes = Ok ([], Map.empty, Some (PodPredicated (pod_name pod))) \<and>
     deviceFilter_quota env pod nodes = Ok ([], Map.empty, None) \<and>
     (IsGPURequiredPod pod \<longrightarrow>
        (\<exists>r. Filter env pod nodes = Ok r \<and> acceptedNodes r = []) \<and>
        (\<exists>r. Filter_quota gpuFilter env pod nodes = Ok r \<and> acceptedNodes r = [])) \<and>
     (\<not> IsGPURequiredPod pod \<longrightarrow>
        Filter env pod nodes = Ok \<lparr>Nodes = Some nodes, FailedNodes = None, Error = []\<rparr> \<and>
        Filter_quota gpuFilter env pod nodes =
          Ok \<lparr>Nodes = Some nodes, FailedNodes = None, Error = []\<rparr>)"
proof -
  have 1: "deviceFilter env pod nodes = Ok ([], Map.empty, Some (PodPredicated (pod_name pod)))"
    using assms by (simp add: deviceFilter_def)
  have 2: "deviceFilter_quota env pod nodes' = Ok ([], Map.empty, None)" for nodes'
    using assms by (simp add: deviceFilter_quota_def)
  have 3: "\<exists>r. Filter env pod nodes = Ok r \<and> acceptedNodes r = []" if "IsGPURequiredPod pod"
    using that 1 by (simp add: Filter_def acceptedNodes_def)
  have 4: "\<exists>r. Filter_quota gpuFilter env pod nodes = Ok r \<and> acceptedNodes r = []"
    if g: "IsGPURequiredPod pod"
  proof (cases "length (quotaLastSyncedRevision gpuFilter) = 0")
    case True
    then show ?thesis using g by (simp add: Filter_quota_def acceptedNodes_def)
  next
    case False
    obtain passed fm e where q: "quotaFilter gpuFilter env pod nodes = (passed, fm, e)"
      by (cases "quotaFilter gpuFilter env pod nodes")
    show ?thesis using g False q 2 [of passed]
      by (cases e) (simp_all add: Filter_quota_def acceptedNodes_def)
  qed
  have 5: "Filter env pod nodes = Ok \<lparr>Nodes = Some nodes, FailedNodes = None, Error = []\<rparr> \<and>
        Filter_quota gpuFilter env pod nodes =
          Ok \<lparr>Nodes = Some nodes, FailedNodes = None, Error = []\<rparr>"
    if "\<not> IsGPURequiredPod pod"
    using that by (simp add: Filter_def Filter_quota_def)
  show ?thesis using 1 2 3 4 5 by blast
qed

section \<open>The write-back\<close>

lemma PollImmediate_dropWhile:
  "PollImmediate answers =
     (case dropWhile retryable answers of
        [] \<Rightarrow> Some ErrWaitTimeout
      | None # rest \<Rightarrow> None
      | Some err # rest \<Rightarrow> Some err)"
  by (induction answers rule: PollImmediate.induct) (simp_all add: retryable_def)

lemma PollImmediate_None_iff: "(PollImmediate answers = None) = (\<not> terminalFailure answers)"
proof (cases "dropWhile retryable answers")
  case Nil
  show ?thesis unfolding PollImmediate_dropWhile terminalFailure_def Nil by simp
next
  case (Cons a rest)
  show ?thesis unfolding PollImmediate_dropWhile terminalFailure_def Cons by (cases a) simp_all
qed

lemma patch_fails_iff:
  "(patchPodWithAnnotations env pod annotationMap \<noteq> None) =
     terminalFailure (cl_patch env pod annotationMap)"
proof (cases "PollImmediate (cl_patch env pod annotationMap)")
  case None
  then have "\<not> terminalFailure (cl_patch env pod annotationMap)"
    by (metis PollImmediate_None_iff)
  then show ?thesis using None by (simp add: patchPodWithAnnotations_def)
next
  case (Some e)
  then have "PollImmediate (cl_patch env pod annotationMap) \<noteq> None" by simp
  then have "terminalFailure (cl_patch env pod annotationMap)"
    by (metis PollImmediate_None_iff)
  then show ?thesis using Some by (simp add: patchPodWithAnnotations_def)
qed

lemma walk_untouched:
  "walkNodeInfoList env pod infos success filtered fm = Ok (acc, fm') \<Longrightarrow>
   k \<notin> (\<lambda>ni. node_name (ni_node ni)) ` set infos \<Longrightarrow> fm' k = fm k"
proof (induction infos arbitrary: success filtered fm)
  case Nil
  then show ?case by simp
next
  case (Cons ni infos)
  from Cons.prems(2) have k: "k \<noteq> node_name (ni_node ni)"
    "k \<notin> (\<lambda>ni. node_name (ni_node ni)) ` set infos" by auto
  show ?case
  proof (cases success)
    case True
    with Cons.prems(1) have
      "walkNodeInfoList env pod infos True filtered
         (fm(node_name (ni_node ni) \<mapsto> alreadyMatchedReason pod)) = Ok (acc, fm')"
      by (simp add: Let_def)
    from Cons.IH [OF this k(2)] k(1) show ?thesis by simp
  next
    case False
    show ?thesis
    proof (cases "succeedsOn env pod ni")
      case True
      from Cons.prems(1) False have
        "walkNodeInfoList env pod (ni # infos) False filtered fm = Ok (acc, fm')" by simp
      then have "walkNodeInfoList env pod infos True (filtered @ [ni_node ni]) fm = Ok (acc, fm')"
        unfolding walk_step_success [OF True] .
      from Cons.IH [OF this k(2)] show ?thesis .
    next
      case ns: False
      from Cons.prems(1) False have
        "walkNodeInfoList env pod (ni # infos) False filtered fm = Ok (acc, fm')" by simp
      from walk_step_no_success [OF ns this] obtain reason where
        "walkNodeInfoList env pod infos False filtered (fm(node_name (ni_node ni) \<mapsto> reason)) = Ok (acc, fm')"
        by blast
      from Cons.IH [OF this k(2)] k(1) show ?thesis by simp
    qed
  qed
qed

lemma patchFails_not_succeeds: "patchFailsOn env pod ni \<Longrightarrow> \<not> succeedsOn env pod ni"
  by (auto simp: patchFailsOn_def succeedsOn_def split: result.splits)

lemma walk_marks_patch_failure:
  "walkNodeInfoList env pod infos False filtered fm = Ok (acc, fm') \<Longrightarrow>
   distinct (map (\<lambda>ni. node_name (ni_node ni)) infos) \<Longrightarrow>
   ni \<in> set infos \<Longrightarrow> patchFailsOn env pod ni \<Longrightarrow>
   \<forall>x\<in>set (takeWhile (\<lambda>x. x \<noteq> ni) infos). \<not> succeedsOn env pod x \<Longrightarrow>
   fm' (node_name (ni_node ni)) = Some ''update pod annotation failed''"
proof (induction infos arbitrary: fm)
  case Nil
  then show ?case by simp
next
  case (Cons x xs)
  show ?case
  proof (cases "x = ni")
    case True
    from Cons.prems(1) [unfolded True walk_step_patch_failure [OF Cons.prems(4)]]
    have w: "walkNodeInfoList env pod xs False filtered
        (fm(node_name (ni_node ni) \<mapsto> ''update pod annotation failed'')) = Ok (acc, fm')" .
    have "node_name (ni_node ni) \<notin> (\<lambda>ni. node_name (ni_node ni)) ` set xs"
      using Cons.prems(2) True by auto
    from walk_untouched [OF w this] show ?thesis by simp
  next
    case False
    then have ns: "\<not> succeedsOn env pod x" using Cons.prems(5) by simp
    from walk_step_no_success [OF ns Cons.prems(1)] obtain reason where
      w: "walkNodeInfoList env pod xs False filtered (fm(node_name (ni_node x) \<mapsto> reason)) = Ok (acc, fm')"
      by blast
    have "distinct (map (\<lambda>ni. node_name (ni_node ni)) xs)" using Cons.prems(2) by simp
    moreover have "ni \<in> set xs" using Cons.prems(3) False by simp
    moreover have "\<forall>y\<in>set (takeWhile (\<lambda>x. x \<noteq> ni) xs). \<not> succeedsOn env pod y"
      using Cons.prems(5) False by simp
    ultimately show ?thesis using Cons.IH [OF w] Cons.prems(4) by blast
  qed
qed

lemma find_None_or_member:
  "(case find P xs of None \<Rightarrow> [] | Some x \<Rightarrow> [f x]) = [] \<longleftrightarrow> (\<forall>x\<in>set xs. \<not> P x)"
proof (cases "find P xs")
  case None
  then have "\<forall>x\<in>set xs. \<not> P x" by (simp add: find_None_iff)
  then show ?thesis unfolding None by simp
next
  case (Some x)
  then have "P x" "x \<in> set xs" by (auto simp: find_Some_iff)
  then show ?thesis unfolding Some by auto
qed

text \<open>
  C3 (amended). When the walk reaches a node on which the allocation succeeds and the
  write-back fails terminally, the patch returns an error, the node is marked
  \<open>update pod annotation failed\<close> and is not accepted, and the walk goes on with the
  rest of the sorted views as if nothing had been chosen: the call accepts the first view
  on which allocation and patch both succeed, and accepts no node exactly when there is no
  such view.
\<close>

theorem C3_patch_failure_moves_on:
  assumes np: "\<not> alreadyPredicated pod"
    and res: "deviceFilter_quota env pod nodes = Ok (accepted, failed, err)"
    and build: "buildNodeInfoList env nodes Map.empty [] = Ok (fm0, infos)"
    and dist: "distinct (map node_name nodes)"
    and ni: "ni \<in> set infos"
    and reached: "\<forall>x\<in>set (takeWhile (\<lambda>x. x \<noteq> ni) (Sort nodeSorter infos)). \<not> succeedsOn env pod x"
    and alloc: "Allocate ni (cl_now env (node_name (ni_node ni))) pod = Ok (n', newPod)"
    and fail: "terminalFailure (cl_patch env newPod (patchAnnotations newPod))"
  shows "patchPodWithAnnotations env newPod (patchAnnotations newPod) \<noteq> None \<and>
     (\<forall>rest filtered fm.
        walkNodeInfoList env pod (ni # rest) False filtered fm =
        walkNodeInfoList env pod rest False filtered
          (fm(node_name (ni_node ni) \<mapsto> ''update pod annotation failed''))) \<and>
     failed (node_name (ni_node ni)) = Some ''update pod annotation failed'' \<and>
     ni_node ni \<notin> set accepted \<and>
     accepted = (case find (succeedsOn env pod) (Sort nodeSorter infos) of
                   None \<Rightarrow> [] | Some x \<Rightarrow> [ni_node x]) \<and>
     ((accepted = []) = (\<forall>x\<in>set infos. \<not> succeedsOn env pod x))"
proof -
  have perr: "patchPodWithAnnotations env newPod (patchAnnotations newPod) \<noteq> None"
    using fail by (metis patch_fails_iff)
  then have pfo: "patchFailsOn env pod ni" using alloc by (simp add: patchFailsOn_def)
  from res np have r: "deviceFilterNodes env pod nodes = Ok (accepted, failed, err)"
    by (simp add: deviceFilter_not_predicated)
  from r build have
    w: "walkNodeInfoList env pod (Sort nodeSorter infos) False [] fm0 = Ok (accepted, failed)"
    by (auto simp: deviceFilterNodes_def split: result.splits)
  note bs = build_spec [OF build]
  from bs have views: "list_all2 (viewOf env) infos (filter (hasView env) nodes)" by simp
  have nodes_of: "map ni_node infos = filter (hasView env) nodes" by (rule views_nodes [OF views])
  have "map (\<lambda>ni. node_name (ni_node ni)) infos = map node_name (map ni_node infos)" by simp
  also have "\<dots> = map node_name (filter (hasView env) nodes)" by (simp only: nodes_of)
  finally have names: "map (\<lambda>ni. node_name (ni_node ni)) infos = map node_name (filter (hasView env) nodes)" .
  have d1: "distinct (map (\<lambda>ni. node_name (ni_node ni)) infos)"
    unfolding names using dist by (rule distinct_map_filter)
  have "mset (map (\<lambda>ni. node_name (ni_node ni)) (Sort nodeSorter infos)) =
        mset (map (\<lambda>ni. node_name (ni_node ni)) infos)"
    by (simp add: Sort_nodes_props(2))
  then have d2: "distinct (map (\<lambda>ni. node_name (ni_node ni)) (Sort nodeSorter infos))"
    using d1 by (metis mset_eq_imp_distinct_iff)
  have mem: "ni \<in> set (Sort nodeSorter infos)" using ni by (simp add: Sort_nodes_props)
  have marked: "failed (node_name (ni_node ni)) = Some ''update pod annotation failed''"
    by (rule walk_marks_patch_failure [OF w d2 mem pfo reached])
  note ws = walk_accepts_first [OF w]
  have acc: "accepted = (case find (succeedsOn env pod) (Sort nodeSorter infos) of
                   None \<Rightarrow> [] | Some x \<Rightarrow> [ni_node x])"
    using ws by simp
  have notacc: "ni_node ni \<notin> set accepted"
  proof
    assume "ni_node ni \<in> set accepted"
    then obtain x where x: "find (succeedsOn env pod) (Sort nodeSorter infos) = Some x"
      "ni_node x = ni_node ni"
      unfolding acc by (cases "find (succeedsOn env pod) (Sort nodeSorter infos)") auto
    from x(1) have sx: "succeedsOn env pod x" "x \<in> set (Sort nodeSorter infos)"
      by (auto simp: find_Some_iff)
    have "inj_on (\<lambda>ni. node_name (ni_node ni)) (set (Sort nodeSorter infos))"
      using d2 by (simp add: distinct_map)
    from inj_onD [OF this _ sx(2) mem] x(2) have "x = ni" by simp
    with sx(1) patchFails_not_succeeds [OF pfo] show False by simp
  qed
  have empty: "(accepted = []) = (\<forall>x\<in>set infos. \<not> succeedsOn env pod x)"
    unfolding acc find_None_or_member by (simp add: Sort_nodes_props)
  show ?thesis using perr walk_step_patch_failure [OF pfo] marked notacc acc empty by blast
qed

section \<open>The device filter on concrete clusters\<close>

lemma gpu_pod_facts:
  "\<not> alreadyPredicated gpu_pod" "IsGPURequiredPod gpu_pod"
  "alreadyPredicated predicated_pod" "IsGPURequiredPod predicated_pod"
  by code_simp+

lemma view_ex_built: "NewNodeInfo (gpu_node name) [] = Ok (view_ex name)"
  by (simp add: NewNodeInfo_def gpu_node_def GetCapacityOfNode_def GetGPUDeviceCountOfNode_def
      VCoreAnnotation_def VMemoryAnnotation_def int_quo_def Let_def upto.simps view_ex_def)

lemma gpu_node_enabled: "IsGPUEnabledNode (gpu_node name)"
  by (simp add: IsGPUEnabledNode_def gpu_node_def GetCapacityOfNode_def VCoreAnnotation_def)

lemma no_pods: "ListPodsOnNode cluster_ex node = Inr []"
  by (simp add: ListPodsOnNode_def cluster_ex_def)

lemma build_two: "buildNodeInfoList cluster_ex two_nodes Map.empty [] =
   Ok (Map.empty, [view_ex ''node0'', view_ex ''node1''])"
  by (simp add: two_nodes_def gpu_node_enabled no_pods view_ex_built)

lemma view_ex_node: "ni_node (view_ex name) = gpu_node name" "node_name (gpu_node name) = name"
  by (simp_all add: view_ex_def gpu_node_def)

lemma walk_two:
  "walkNodeInfoList cluster_ex gpu_pod [view_ex ''node0'', view_ex ''node1''] False [] Map.empty =
     Ok ([gpu_node ''node1''], [''node0'' \<mapsto> ''update pod annotation failed''])"
  by (simp del: walkNodeInfoList.simps(2)
      add: walk_step_patch_failure [OF patch_fails_node0] walk_step_success [OF succeeds_node1] view_ex_node)

lemma filter_two:
  "deviceFilterNodes cluster_ex gpu_pod two_nodes =
     Ok ([gpu_node ''node1''], [''node0'' \<mapsto> ''update pod annotation failed''], None)"
  by (simp del: walkNodeInfoList.simps(2) add: deviceFilterNodes_def build_two sort_two_views walk_two)

text \<open>
  The claim C3 as stated fails: the patch fails terminally on \<open>node0\<close>, the first
  view, and the call still accepts \<open>node1\<close>.
\<close>

theorem C3_counterexample:
  "patchFailsOn cluster_ex gpu_pod (view_ex ''node0'') \<and>
   acceptedNames (deviceFilter_quota cluster_ex gpu_pod two_nodes) = Some [''node1''] \<and>
   failedReason (deviceFilter_quota cluster_ex gpu_pod two_nodes) ''node0'' =
     Some ''update pod annotation failed''"
  by (simp add: patch_fails_node0 deviceFilter_not_predicated gpu_pod_facts filter_two acceptedNames_def
      failedReason_def view_ex_node)

text \<open>
  The claim C1 as stated fails on a predicated pod that requests GPU: the candidate is
  neither accepted nor given a reason.
\<close>

theorem C1_counterexample:
  "IsGPURequiredPod predicated_pod \<and>
   acceptedNames (deviceFilter_quota cluster_ex predicated_pod [gpu_node ''node0'']) = Some [] \<and>
   failedReason (deviceFilter_quota cluster_ex predicated_pod [gpu_node ''node0'']) ''node0'' = None \<and>
   acceptedNames (deviceFilter cluster_ex predicated_pod [gpu_node ''node0'']) = Some [] \<and>
   failedReason (deviceFilter cluster_ex predicated_pod [gpu_node ''node0'']) ''node0'' = None"
  by (simp add: gpu_pod_facts deviceFilter_def deviceFilter_quota_def acceptedNames_def failedReason_def)

theorem C1_device_filter_witness:
  "deviceFilter cluster_ex gpu_pod two_nodes =
     Ok ([gpu_node ''node1''], [''node0'' \<mapsto> ''update pod annotation failed''], None) \<and>
   deviceFilter_quota cluster_ex gpu_pod two_nodes =
     Ok ([gpu_node ''node1''], [''node0'' \<mapsto> ''update pod annotation failed''], None) \<and>
   find (succeedsOn cluster_ex gpu_pod) (Sort nodeSorter [view_ex ''node0'', view_ex ''node1'']) =
     Some (view_ex ''node1'')"
proof -
  have res: "deviceFilter cluster_ex gpu_pod two_nodes =
     Ok ([gpu_node ''node1''], [''node0'' \<mapsto> ''update pod annotation failed''], None)"
    by (simp add: deviceFilter_not_predicated gpu_pod_facts filter_two)
  from C1_device_filter_first_success [OF gpu_pod_facts(1) res]
  have q: "deviceFilter_quota cluster_ex gpu_pod two_nodes =
     Ok ([gpu_node ''node1''], [''node0'' \<mapsto> ''update pod annotation failed''], None)"
    and "[gpu_node ''node1''] =
       (case find (succeedsOn cluster_ex gpu_pod) (Sort nodeSorter [view_ex ''node0'', view_ex ''node1'']) of
          None \<Rightarrow> [] | Some ni \<Rightarrow> [ni_node ni])"
    by (simp_all add: build_two)
  moreover have "find (succeedsOn cluster_ex gpu_pod) (Sort nodeSorter [view_ex ''node0'', view_ex ''node1'']) =
     Some (view_ex ''node1'')"
    unfolding sort_two_views using succeeds_node1 patchFails_not_succeeds [OF patch_fails_node0] by simp
  ultimately show ?thesis using res by simp
qed

text \<open>
  The claim C2 as stated fails on a predicated pod that requests no GPU: the pipeline of
  either version returns it on both candidates.
\<close>

theorem C2_counterexample:
  "alreadyPredicated plain_predicated_pod \<and> \<not> IsGPURequiredPod plain_predicated_pod \<and>
   Filter cluster_ex plain_predicated_pod two_nodes =
     Ok \<lparr>Nodes = Some two_nodes, FailedNodes = None, Error = []\<rparr> \<and>
   Filter_quota gpuFilter_ex cluster_ex plain_predicated_pod two_nodes =
     Ok \<lparr>Nodes = Some two_nodes, FailedNodes = None, Error = []\<rparr> \<and>
   acceptedNodes \<lparr>Nodes = Some two_nodes, FailedNodes = None, Error = []\<rparr> =
     [gpu_node ''node0'', gpu_node ''node1'']"
proof -
  have p: "alreadyPredicated plain_predicated_pod" "\<not> IsGPURequiredPod plain_predicated_pod"
    by code_simp+
  show ?thesis using p by (simp add: Filter_def Filter_quota_def acceptedNodes_def two_nodes_def)
qed

theorem C2_predicated_pod_witness:
  "alreadyPredicated predicated_pod \<and> IsGPURequiredPod predicated_pod \<and>
   deviceFilter cluster_ex predicated_pod two_nodes = Ok ([], Map.empty, Some (PodPredicated ''q'')) \<and>
   deviceFilter_quota cluster_ex predicated_pod two_nodes = Ok ([], Map.empty, None) \<and>
   (\<exists>r. Filter cluster_ex predicated_pod two_nodes = Ok r \<and> acceptedNodes r = []) \<and>
   (\<exists>r. Filter_quota (setQuota (newGPUFilter conf_ex) [] ''none'') cluster_ex predicated_pod two_nodes =
          Ok r \<and>
        acceptedNodes r = [])"
  using C2_predicated_pod_is_never_accepted [OF gpu_pod_facts(3), of cluster_ex two_nodes
      "setQuota (newGPUFilter conf_ex) [] ''none''"]
    gpu_pod_facts(3,4)
  by (simp add: predicated_pod_def pod_ex_def)

theorem C3_patch_failure_witness:
  "(\<exists>n' newPod.
      Allocate (view_ex ''node0'') (cl_now cluster_ex ''node0'') gpu_pod = Ok (n', newPod) \<and>
      terminalFailure (cl_patch cluster_ex newPod (patchAnnotations newPod)) \<and>
      patchPodWithAnnotations cluster_ex newPod (patchAnnotations newPod) \<noteq> None) \<and>
   deviceFilter_quota cluster_ex gpu_pod two_nodes =
     Ok ([gpu_node ''node1''], [''node0'' \<mapsto> ''update pod annotation failed''], None) \<and>
   [gpu_node ''node1''] =
     (case find (succeedsOn cluster_ex gpu_pod) (Sort nodeSorter [view_ex ''node0'', view_ex ''node1'']) of
        None \<Rightarrow> [] | Some x \<Rightarrow> [ni_node x])"
proof -
  from patch_fails_node0 obtain n' newPod where
    alloc: "Allocate (view_ex ''node0'') (cl_now cluster_ex (node_name (ni_node (view_ex ''node0'')))) gpu_pod
              = Ok (n', newPod)"
    and p: "patchPodWithAnnotations cluster_ex newPod (patchAnnotations newPod) \<noteq> None"
    by (auto simp: patchFailsOn_def split: result.splits)
  have fail: "terminalFailure (cl_patch cluster_ex newPod (patchAnnotations newPod))"
    using p by (metis patch_fails_iff)
  have res: "deviceFilter_quota cluster_ex gpu_pod two_nodes =
     Ok ([gpu_node ''node1''], [''node0'' \<mapsto> ''update pod annotation failed''], None)"
    by (simp add: deviceFilter_not_predicated gpu_pod_facts filter_two)
  have dist: "distinct (map node_name two_nodes)" by (simp add: two_nodes_def gpu_node_def)
  have ni: "view_ex ''node0'' \<in> set [view_ex ''node0'', view_ex ''node1'']" by simp
  have reached: "\<forall>x\<in>set (takeWhile (\<lambda>x. x \<noteq> view_ex ''node0'')
      (Sort nodeSorter [view_ex ''node0'', view_ex ''node1''])). \<not> succeedsOn cluster_ex gpu_pod x"
    unfolding sort_two_views by simp
  note t = C3_patch_failure_moves_on [OF gpu_pod_facts(1) res build_two dist ni reached alloc fail]
  from t have "[gpu_node ''node1''] =
     (case find (succeedsOn cluster_ex gpu_pod) (Sort nodeSorter [view_ex ''node0'', view_ex ''node1'']) of
        None \<Rightarrow> [] | Some x \<Rightarrow> [ni_node x])" by blast
  moreover from t have "patchPodWithAnnotations cluster_ex newPod (patchAnnotations newPod) \<noteq> None"
    by blast
  ultimately show ?thesis using alloc fail res by (auto simp: view_ex_node)
qed

section \<open>The quota filter\<close>






























section \<open>The cold-start gate\<close>

lemma syncQuota_no_load:
  assumes "quotaLastSyncedRevision g = []" "\<not> syncLoads unmarshal got"
  shows "syncQuota unmarshal g got = g"
proof (cases got)
  case (Inl err)
  then show ?thesis using assms by (simp add: syncQuota_def syncLoads_def)
next
  case (Inr cm)
  show ?thesis
  proof (cases "cm_resourceVersion cm = []")
    case True
    then show ?thesis using assms Inr by (simp add: syncQuota_def)
  next
    case False
    with assms Inr obtain e where "parseQuota unmarshal (cm_data cm) = Inl e"
      by (cases "parseQuota unmarshal (cm_data cm)") (auto simp: syncLoads_def)
    then show ?thesis using Inr by (simp add: syncQuota_def)
  qed
qed

lemma syncAll_no_load:
  assumes "quotaLastSyncedRevision g = []" "\<forall>got\<in>set gots. \<not> syncLoads unmarshal got"
  shows "syncAll unmarshal g gots = g"
  using assms unfolding syncAll_def
  by (induction gots) (simp_all add: syncQuota_no_load)

lemma Filter_quota_gate:
  assumes "IsGPURequiredPod pod" "quotaLastSyncedRevision g = []"
  shows "Filter_quota g env pod nodes = Ok notSyncedResult"
  using assms by (simp add: Filter_quota_def notSyncedResult_def)

lemma Filter_quota_past_gate:
  assumes "IsGPURequiredPod pod" "passesGate g"
  shows "Filter_quota g env pod nodes =
           runFilters [\<lambda>p ns. Ok (quotaFilter g env p ns), deviceFilter_quota env] pod nodes Map.empty"
  using assms by (simp add: Filter_quota_def passesGate_def)

lemma syncQuota_not_found:
  assumes "Contains (ErrorString err) ''not found''"
  shows "syncQuota unmarshal g (Inl err) = g\<lparr>quota := [], quotaLastSyncedRevision := ''none''\<rparr>"
  using assms by (simp add: syncQuota_def setQuota_def)

lemma syncQuota_keeps_synced:
  assumes "passesGate g" "versioned got"
  shows "passesGate (syncQuota unmarshal g got)"
proof (cases got)
  case (Inl err)
  then show ?thesis using assms by (simp add: syncQuota_def setQuota_def passesGate_def)
next
  case (Inr cm)
  then have "cm_resourceVersion cm \<noteq> []" using assms(2) by (simp add: versioned_def)
  then show ?thesis using assms(1) Inr
    by (simp add: syncQuota_def setQuota_def passesGate_def split: sum.splits)
qed

lemma syncAll_keeps_synced:
  assumes "passesGate g" "\<forall>got\<in>set gots. versioned got"
  shows "passesGate (syncAll unmarshal g gots)"
  using assms unfolding syncAll_def
  by (induction gots arbitrary: g) (simp_all add: syncQuota_keeps_synced)

lemma Filter_quota_no_quota:
  assumes "IsGPURequiredPod pod" "quotaLastSyncedRevision g \<noteq> []" "quota g = []"
  shows "Filter_quota g env pod nodes = runFilters [deviceFilter_quota env] pod nodes Map.empty"
  using assms by (simp add: Filter_quota_def quotaFilter_def getQuotaForNamespace_def)

text \<open>
  C9. For a pod that requests GPU, after any runs of the sync since \<open>newGPUFilter\<close> none
  of which loaded, \<open>Filter\<close> answers with the error that asks to retry later, with no
  nodes and no failed nodes, whatever the candidates and the cluster. A run of the sync
  that finds the config map reported not found leaves the quota empty and the revision
  \<open>none\<close>: no namespace has a quota, \<open>Filter\<close> is past the gate and answers what the
  device filter answers on all the candidates, and it stays past the gate after any later
  runs on versioned config maps, where it runs its two filters.
\<close>

theorem C9_cold_start_gate:
  "(IsGPURequiredPod pod \<and> (\<forall>got\<in>set gots. \<not> syncLoads unmarshal got) \<longrightarrow>
      Filter_quota (syncAll unmarshal (newGPUFilter config) gots) env pod nodes = Ok notSyncedResult) \<and>
   (Contains (ErrorString err) ''not found'' \<longrightarrow>
      quota (syncQuota unmarshal g (Inl err)) = [] \<and>
      quotaLastSyncedRevision (syncQuota unmarshal g (Inl err)) = ''none'' \<and>
      (\<forall>namespace. getQuotaForNamespace (syncQuota unmarshal g (Inl err)) namespace = None) \<and>
      (IsGPURequiredPod pod \<longrightarrow>
         Filter_quota (syncQuota unmarshal g (Inl err)) env pod nodes =
           runFilters [deviceFilter_quota env] pod nodes Map.empty) \<and>
      ((\<forall>got\<in>set later. versioned got) \<longrightarrow>
         passesGate (syncAll unmarshal (syncQuota unmarshal g (Inl err)) later))) \<and>
   (IsGPURequiredPod pod \<and> passesGate g \<longrightarrow>
      Filter_quota g env pod nodes =
        runFilters [\<lambda>p ns. Ok (quotaFilter g env p ns), deviceFilter_quota env] pod nodes Map.empty)"
proof -
  have a: "Filter_quota (syncAll unmarshal (newGPUFilter config) gots) env pod nodes = Ok notSyncedResult"
    if "IsGPURequiredPod pod" "\<forall>got\<in>set gots. \<not> syncLoads unmarshal got"
  proof -
    have "syncAll unmarshal (newGPUFilter config) gots = newGPUFilter config"
      using that(2) by (intro syncAll_no_load) (simp_all add: newGPUFilter_def)
    then show ?thesis using that(1) by (simp add: Filter_quota_gate newGPUFilter_def)
  qed
  have b: "quota (syncQuota unmarshal g (Inl err)) = [] \<and>
      quotaLastSyncedRevision (syncQuota unmarshal g (Inl err)) = ''none'' \<and>
      (\<forall>namespace. getQuotaForNamespace (syncQuota unmarshal g (Inl err)) namespace = None) \<and>
      (IsGPURequiredPod pod \<longrightarrow>
         Filter_quota (syncQuota unmarshal g (Inl err)) env pod nodes =
           runFilters [deviceFilter_quota env] pod nodes Map.empty) \<and>
      ((\<forall>got\<in>set later. versioned got) \<longrightarrow>
         passesGate (syncAll unmarshal (syncQuota unmarshal g (Inl err)) later))"
    if nf: "Contains (ErrorString err) ''not found''"
  proof -
    note s = syncQuota_not_found [OF nf, of unmarshal g]
    have 1: "quota (syncQuota unmarshal g (Inl err)) = []" by (simp add: s)
    have 2: "quotaLastSyncedRevision (syncQuota unmarshal g (Inl err)) = ''none''" by (simp add: s)
    have 3: "quotaLastSyncedRevision (syncQuota unmarshal g (Inl err)) \<noteq> []" by (simp add: s)
    have 4: "passesGate (syncQuota unmarshal g (Inl err))" using 3 by (simp add: passesGate_def)
    have 5: "(\<forall>got\<in>set later. versioned got) \<longrightarrow>
         passesGate (syncAll unmarshal (syncQuota unmarshal g (Inl err)) later)"
      using syncAll_keeps_synced [OF 4] by simp
    show ?thesis using 1 2 5 Filter_quota_no_quota [OF _ 3 1]
      by (simp add: getQuotaForNamespace_def)
  qed
  have c: "Filter_quota g env pod nodes =
        runFilters [\<lambda>p ns. Ok (quotaFilter g env p ns), deviceFilter_quota env] pod nodes Map.empty"
    if "IsGPURequiredPod pod" "passesGate g"
    using that by (rule Filter_quota_past_gate)
  show ?thesis using a b c by blast
qed

lemma sync_facts:
  "\<forall>got\<in>set failed_syncs. \<not> syncLoads unmarshal_ex got"
  "Contains (ErrorString (ApiOther ''configmap gpuquota not found'')) ''not found''"
  "\<forall>got\<in>set failed_syncs. versioned got"
  by code_simp+

theorem C9_cold_start_witness:
  "IsGPURequiredPod gpu_pod \<and>
   \<not> syncLoads unmarshal_ex (Inl (ApiOther ''connection refused'')) \<and>
   Filter_quota (syncAll unmarshal_ex (newGPUFilter conf_ex) failed_syncs) cluster_ex gpu_pod two_nodes =
     Ok notSyncedResult \<and>
   Contains (ErrorString (ApiOther ''configmap gpuquota not found'')) ''not found'' \<and>
   quotaLastSyncedRevision
     (syncQuota unmarshal_ex (newGPUFilter conf_ex) (Inl (ApiOther ''configmap gpuquota not found''))) = ''none'' \<and>
   Filter_quota
     (syncQuota unmarshal_ex (newGPUFilter conf_ex) (Inl (ApiOther ''configmap gpuquota not found'')))
     cluster_ex gpu_pod two_nodes =
     Ok \<lparr>Nodes = Some [gpu_node ''node1''],
         FailedNodes = Some [''node0'' \<mapsto> ''update pod annotation failed''], Error = []\<rparr> \<and>
   passesGate (syncAll unmarshal_ex
     (syncQuota unmarshal_ex (newGPUFilter conf_ex) (Inl (ApiOther ''configmap gpuquota not found'')))
     failed_syncs)"
proof -
  have n: "\<not> syncLoads unmarshal_ex (Inl (ApiOther ''connection refused''))"
    using sync_facts(1) by (simp add: failed_syncs_def)
  have r: "runFilters [deviceFilter_quota cluster_ex] gpu_pod two_nodes Map.empty =
             Ok \<lparr>Nodes = Some [gpu_node ''node1''],
                 FailedNodes = Some [''node0'' \<mapsto> ''update pod annotation failed''], Error = []\<rparr>"
    by (simp add: deviceFilter_not_predicated gpu_pod_facts filter_two)
  show ?thesis
    using C9_cold_start_gate [of gpu_pod failed_syncs unmarshal_ex conf_ex cluster_ex two_nodes
        "ApiOther ''configmap gpuquota not found''" "newGPUFilter conf_ex" failed_syncs]
      gpu_pod_facts(2) sync_facts n
    by (simp add: r del: runFilters.simps)
qed

end
